theory Spec2Isabelle
  imports Complex_Main
begin

section \<open>Data model of src/index.tsx\<close>

text \<open>
  The simulation core of the game is the closure \<open>loop\<close> inside the component
  \<open>GameCanvas\<close>, together with the two modal handlers \<open>handlePickup\<close> and
  \<open>handleDiscard\<close>. JavaScript numbers are modelled as exact reals (no rounding: a
  health lowered by 0.2 five times from 1 is exactly 0 here, where the doubles of the
  source leave a tiny positive rest, so a comparison that sits on such a boundary can
  differ from the source by one frame; the concrete states below use values whose
  arithmetic is exact in doubles);
  counters that the source only increments, resets, or decrements under a \<open>> 0\<close>
  guard are natural numbers. The fields \<open>id\<close> and \<open>color\<close> of entities, the
  floating texts, the camera, the visited-chunk set and the React mirrors of the
  mutable refs are presentation only and are left out. Every call of \<open>Math.random\<close>
  that the simulation depends on is a field of the per-frame record \<open>Rnd\<close>.
  The callback \<open>onGameOver\<close> is modelled by the trace \<open>gameOverCalls\<close> of its
  invocations, in order.
\<close>

datatype HeroType = SWORDSMAN | MAGE
datatype EntityType = PLAYER | MOB_SLIME | MOB_BAT | ROGUE_AGENT | CHEST
datatype LootRarity = COMMON | EPIC | LEGENDARY | MYTHIC
datatype PlatformType = DIRT | STONE | WOOD | LAVA
datatype error = TypeError

record Rect =
  x :: real
  y :: real
  width :: real
  height :: real

record Platform = Rect +
  ptype :: PlatformType

record Item =
  name :: string
  rarity :: LootRarity
  itemValue :: real
  color :: string

record Entity = Rect +
  type :: EntityType
  vx :: real
  vy :: real
  hp :: real
  maxHp :: real
  facing :: int
  attackCooldown :: nat
  hitFlashTimer :: nat
  isDead :: bool
  skillCooldown :: "nat option"
  jumpCount :: nat
  isJumpKeyHeld :: bool
  jumpCooldown :: "nat option"
  isOpened :: "bool option"

record Rnd =
  spawnSide :: real
  spawnType :: real
  lootRarity :: real
  lootValue :: real
  lootName :: real
  potionDrop :: real
  extractPick :: real

record GameState =
  time :: nat
  extractionActive :: bool
  extractionZone :: "Rect option"
  gameOver :: bool
  readingTimer :: nat
  interactionTarget :: "nat option"
  extractionFrameCount :: nat
  isReading :: bool
  isLootMenuOpen :: bool
  player :: Entity
  entities :: "Entity list"
  platforms :: "Platform list"
  inventory :: "Item list"
  potion :: nat
  kills :: nat
  keys :: "string \<Rightarrow> bool"
  lootModal :: "Item option"
  gameOverCalls :: "(bool \<times> real \<times> nat) list"

text \<open>
  \<open>interactionTarget\<close> is a reference to an element of the entity registry in the
  source; the registry is only ever appended to, so the reference is the element's index.
\<close>

section \<open>Constants and helper functions\<close>

definition GRAVITY :: real where "GRAVITY = 0.5"
definition FRICTION :: real where "FRICTION = 0.85"
definition JUMP_FORCE :: real where "JUMP_FORCE = - 11"
definition INVENTORY_CAP :: nat where "INVENTORY_CAP = 20"

definition rectIntersect :: "'a Rect_scheme \<Rightarrow> 'b Rect_scheme \<Rightarrow> bool" where
  "rectIntersect r1 r2 =
     (\<not> (x r2 > x r1 + width r1 \<or>
         x r2 + width r2 < x r1 \<or>
         y r2 > y r1 + height r1 \<or>
         y r2 + height r2 < y r1))"

definition getDistance :: "'a Rect_scheme \<Rightarrow> 'b Rect_scheme \<Rightarrow> real" where
  "getDistance e1 e2 =
     (let dx = (x e1 + width e1 / 2) - (x e2 + width e2 / 2);
          dy = (y e1 + height e1 / 2) - (y e2 + height e2 / 2)
      in sqrt (dx * dx + dy * dy))"

definition addRect :: "real \<Rightarrow> real \<Rightarrow> real \<Rightarrow> real \<Rightarrow> PlatformType \<Rightarrow> Platform" where
  "addRect px py w h t = \<lparr>x = px, y = py, width = w, height = h, ptype = t\<rparr>"

definition shaftLedge :: "nat \<Rightarrow> Platform" where
  "shaftLedge i =
     (let yi = - 1000 + 200 * int i
      in addRect (if yi mod 400 = 0 then - 250 else 150) (real_of_int yi) 120 20 STONE)"

definition generateMap :: "Platform list" where
  "generateMap =
     map shaftLedge [0..<10] @
     [addRect (- 1500) 800 1000 60 DIRT,
      addRect (- 500) 800 1000 60 DIRT,
      addRect 500 800 1000 60 DIRT,
      addRect (- 1200) (- 200) 600 40 STONE,
      addRect (- 1200) (- 600) 200 20 WOOD,
      addRect (- 1000) (- 400) 200 20 WOOD,
      addRect 800 (- 200) 600 40 STONE,
      addRect (- 600) (- 1200) 1200 60 DIRT,
      addRect (- 800) 1400 1600 60 STONE,
      addRect (- 1000) 1000 100 20 WOOD,
      addRect (- 800) 1200 100 20 WOOD,
      addRect 800 1000 100 20 WOOD,
      addRect 1000 1200 100 20 WOOD,
      addRect (- 800) 300 100 20 WOOD,
      addRect (- 800) 550 100 20 WOOD,
      addRect 800 300 100 20 WOOD,
      addRect 800 550 100 20 WOOD,
      addRect (- 2000) 820 500 20 LAVA,
      addRect 1500 820 500 20 LAVA,
      addRect (- 200) 1450 400 20 LAVA,
      addRect (- 10000) 2000 20000 500 STONE,
      addRect (- 200) 0 400 40 DIRT]"

fun rarityMin :: "LootRarity \<Rightarrow> real" where
  "rarityMin COMMON = 1"
| "rarityMin EPIC = 10"
| "rarityMin LEGENDARY = 30"
| "rarityMin MYTHIC = 200"

fun rarityMax :: "LootRarity \<Rightarrow> real" where
  "rarityMax COMMON = 10"
| "rarityMax EPIC = 30"
| "rarityMax LEGENDARY = 80"
| "rarityMax MYTHIC = 500"

fun rarityColor :: "LootRarity \<Rightarrow> string" where
  "rarityColor COMMON = ''#2ecc71''"
| "rarityColor EPIC = ''#9b59b6''"
| "rarityColor LEGENDARY = ''#f1c40f''"
| "rarityColor MYTHIC = ''#e74c3c''"

fun rarityText :: "LootRarity \<Rightarrow> string" where
  "rarityText COMMON = ''COMMON''"
| "rarityText EPIC = ''EPIC''"
| "rarityText LEGENDARY = ''LEGENDARY''"
| "rarityText MYTHIC = ''MYTHIC''"

definition lootTypes :: "string list" where
  "lootTypes = [''Coin'', ''Gem'', ''Chalice'', ''Relic'', ''Crown'', ''Artifact'']"

definition generateLoot :: "Rnd \<Rightarrow> Item" where
  "generateLoot rnd =
     (let r = lootRarity rnd;
          rar = (if r > 0.99 then MYTHIC
                 else if r > 0.9 then LEGENDARY
                 else if r > 0.6 then EPIC
                 else COMMON);
          v = real_of_int \<lfloor>lootValue rnd * (rarityMax rar - rarityMin rar) + rarityMin rar\<rfloor>;
          i = \<lfloor>lootName rnd * real (length lootTypes)\<rfloor>;
          t = (if 0 \<le> i \<and> nat i < length lootTypes then lootTypes ! nat i else ''undefined'')
      in \<lparr>name = rarityText rar @ '' '' @ t, rarity = rar, itemValue = v,
          color = rarityColor rar\<rparr>)"

section \<open>The modal handlers\<close>

definition handlePickup :: "GameState \<Rightarrow> GameState" where
  "handlePickup s =
     (let s1 = (case lootModal s of
                  Some it \<Rightarrow>
                    if length (inventory s) < INVENTORY_CAP
                    then s\<lparr>inventory := inventory s @ [it]\<rparr>
                    else s
                | None \<Rightarrow> s)
      in s1\<lparr>lootModal := None, isLootMenuOpen := False\<rparr>)"

definition handleDiscard :: "GameState \<Rightarrow> GameState" where
  "handleDiscard s = s\<lparr>lootModal := None, isLootMenuOpen := False\<rparr>"

definition handleKeyDown :: "string \<Rightarrow> GameState \<Rightarrow> GameState" where
  "handleKeyDown code s = s\<lparr>keys := (keys s)(code := True)\<rparr>"

definition handleKeyUp :: "string \<Rightarrow> GameState \<Rightarrow> GameState" where
  "handleKeyUp code s = s\<lparr>keys := (keys s)(code := False)\<rparr>"

section \<open>Session start\<close>

definition initPlayer :: Entity where
  "initPlayer =
     \<lparr>x = 0, y = - 100, width = 32, height = 48,
      type = PLAYER, vx = 0, vy = 0, hp = 100, maxHp = 100, facing = 1,
      attackCooldown = 0, hitFlashTimer = 0, isDead = False, skillCooldown = Some 0,
      jumpCount = 0, isJumpKeyHeld = False, jumpCooldown = None, isOpened = None\<rparr>"

definition newChest :: "Platform \<Rightarrow> Entity" where
  "newChest p =
     \<lparr>x = x p + width p / 2 - 16, y = y p - 32, width = 32, height = 32,
      type = CHEST, vx = 0, vy = 0, hp = 1, maxHp = 1, facing = 1,
      attackCooldown = 0, hitFlashTimer = 0, isDead = False, skillCooldown = None,
      jumpCount = 0, isJumpKeyHeld = False, jumpCooldown = None, isOpened = Some False\<rparr>"

text \<open>
  The entity spawner of the mount effect: one chest per platform that is neither LAVA
  nor WOOD and whose draw exceeds 0.2. The draws are given as a list paired with the
  platforms (a platform without a draw gets no chest).
\<close>

fun spawnChests :: "Platform list \<Rightarrow> real list \<Rightarrow> Entity list" where
  "spawnChests [] rs = []"
| "spawnChests (p # ps) [] = []"
| "spawnChests (p # ps) (r # rs) =
     (if ptype p \<noteq> LAVA \<and> ptype p \<noteq> WOOD \<and> r > 0.2
      then newChest p # spawnChests ps rs
      else spawnChests ps rs)"

definition initState :: "real list \<Rightarrow> GameState" where
  "initState rs =
     \<lparr>time = 0, extractionActive = False, extractionZone = None, gameOver = False,
      readingTimer = 0, interactionTarget = None, extractionFrameCount = 0,
      isReading = False, isLootMenuOpen = False,
      player = initPlayer, entities = spawnChests generateMap rs, platforms = generateMap,
      inventory = [], potion = 0, kills = 0, keys = (\<lambda>k. False), lootModal = None,
      gameOverCalls = []\<rparr>"

section \<open>The frame loop, section by section\<close>

subsection \<open>Spawn logic\<close>

definition newMob :: "Rnd \<Rightarrow> Entity \<Rightarrow> Entity" where
  "newMob rnd p =
     \<lparr>x = x p + (if spawnSide rnd > 0.5 then 600 else - 600), y = y p - 100,
      width = 32, height = 32,
      type = (if spawnType rnd > 0.7 then MOB_BAT else MOB_SLIME),
      vx = 0, vy = 0, hp = 30, maxHp = 30, facing = 1,
      attackCooldown = 0, hitFlashTimer = 0, isDead = False, skillCooldown = None,
      jumpCount = 0, isJumpKeyHeld = False, jumpCooldown = None, isOpened = None\<rparr>"

definition newRogue :: "Entity \<Rightarrow> Entity" where
  "newRogue p =
     \<lparr>x = x p + 500, y = y p - 100, width = 32, height = 48,
      type = ROGUE_AGENT, vx = 0, vy = 0, hp = 120, maxHp = 120, facing = - 1,
      attackCooldown = 0, hitFlashTimer = 0, isDead = False, skillCooldown = None,
      jumpCount = 0, isJumpKeyHeld = False, jumpCooldown = Some 0, isOpened = None\<rparr>"

definition spawnMob :: "Rnd \<Rightarrow> GameState \<Rightarrow> GameState" where
  "spawnMob rnd s =
     (if time s mod 200 = 0 \<and> length (entities s) < 50
      then s\<lparr>entities := entities s @ [newMob rnd (player s)]\<rparr>
      else s)"

definition rogueCount :: "Entity list \<Rightarrow> nat" where
  "rogueCount es = length (filter (\<lambda>e. type e = ROGUE_AGENT \<and> \<not> isDead e) es)"

definition spawnRogue :: "GameState \<Rightarrow> GameState" where
  "spawnRogue s =
     (if time s mod 1200 = 0 \<and> rogueCount (entities s) < 5
      then s\<lparr>entities := entities s @ [newRogue (player s)]\<rparr>
      else s)"

subsection \<open>Player input\<close>

definition movePlayer :: "(string \<Rightarrow> bool) \<Rightarrow> Entity \<Rightarrow> Entity \<times> bool" where
  "movePlayer k p =
     (let (p1, d1) = (if k ''KeyA'' \<or> k ''ArrowLeft''
                      then (p\<lparr>vx := vx p - 0.8, facing := - 1\<rparr>, True)
                      else (p, False))
      in (if k ''KeyD'' \<or> k ''ArrowRight''
          then (p1\<lparr>vx := vx p1 + 0.8, facing := 1\<rparr>, True)
          else (p1, d1)))"

definition isJumpPressed :: "(string \<Rightarrow> bool) \<Rightarrow> bool" where
  "isJumpPressed k = (k ''Space'' \<or> k ''ArrowUp'' \<or> k ''KeyW'')"

definition jumpPlayer :: "(string \<Rightarrow> bool) \<Rightarrow> Entity \<times> bool \<Rightarrow> Entity \<times> bool" where
  "jumpPlayer k pd =
     (let p = fst pd; didMove = snd pd
      in if isJumpPressed k then
           (if \<not> isJumpKeyHeld p then
              (if jumpCount p < 2
               then (p\<lparr>vy := JUMP_FORCE, jumpCount := jumpCount p + 1,
                       isJumpKeyHeld := True\<rparr>, True)
               else (p\<lparr>isJumpKeyHeld := True\<rparr>, didMove))
            else (p, didMove))
         else (p\<lparr>isJumpKeyHeld := False\<rparr>, didMove))"

definition usePotion :: "GameState \<Rightarrow> GameState" where
  "usePotion s =
     (let p = player s
      in if keys s ''Digit1'' \<and> potion s > 0 \<and> hp p < maxHp p
         then (let healAmount = real_of_int \<lfloor>maxHp p * 0.3\<rfloor>
               in s\<lparr>potion := potion s - 1,
                    player := p\<lparr>hp := min (hp p + healAmount) (maxHp p)\<rparr>,
                    keys := (keys s)(''Digit1'' := False)\<rparr>)
         else s)"

fun findIndex :: "('a \<Rightarrow> bool) \<Rightarrow> 'a list \<Rightarrow> nat option" where
  "findIndex P [] = None"
| "findIndex P (e # es) =
     (if P e then Some 0 else map_option Suc (findIndex P es))"

definition isOpenedTruthy :: "Entity \<Rightarrow> bool" where
  "isOpenedTruthy e = (isOpened e = Some True)"

definition searchable :: "Entity \<Rightarrow> Entity \<Rightarrow> bool" where
  "searchable p e =
     (type e = CHEST \<and> \<not> isDead e \<and> \<not> isOpenedTruthy e \<and> getDistance p e < 100)"

definition searchInteraction :: "bool \<Rightarrow> GameState \<Rightarrow> GameState" where
  "searchInteraction didMove s =
     (let chest = findIndex (searchable (player s)) (entities s);
          s1 = s\<lparr>interactionTarget := chest\<rparr>;
          s2 = (if isReading s1 \<and> didMove
                then s1\<lparr>isReading := False, readingTimer := 0\<rparr>
                else s1)
      in if keys s2 ''KeyH'' \<and> chest \<noteq> None \<and> \<not> isReading s2
         then s2\<lparr>isReading := True\<rparr>
         else s2)"

definition playerInput :: "GameState \<Rightarrow> GameState" where
  "playerInput s =
     (if \<not> isLootMenuOpen s
      then (let pd = jumpPlayer (keys s) (movePlayer (keys s) (player s))
            in searchInteraction (snd pd) (usePotion (s\<lparr>player := fst pd\<rparr>)))
      else s)"

subsection \<open>Player physics and collision resolution\<close>

definition playerPhysics :: "Entity \<Rightarrow> Entity" where
  "playerPhysics p =
     (let p1 = p\<lparr>vx := vx p * FRICTION\<rparr>;
          p2 = p1\<lparr>vy := vy p1 + GRAVITY\<rparr>;
          p3 = p2\<lparr>x := x p2 + vx p2\<rparr>
      in p3\<lparr>y := y p3 + vy p3\<rparr>)"

text \<open>
  The callback of \<open>platformsRef.current.forEach\<close> for the player. The second
  component is the local \<open>onGround\<close>.
\<close>

definition collidePlayer :: "Platform \<Rightarrow> Entity \<times> bool \<Rightarrow> Entity \<times> bool" where
  "collidePlayer plat pg =
     (let p = fst pg; onGround = snd pg
      in if rectIntersect p plat then
           (if ptype plat = LAVA then (p\<lparr>hp := 0\<rparr>, onGround)
            else (let overlapY = (y p + height p) - y plat
                  in if vy p \<ge> 0 \<and> overlapY \<le> 20 \<and> overlapY \<ge> 0
                     then (p\<lparr>y := y plat - height p, vy := 0, jumpCount := 0\<rparr>, True)
                     else if vy p < 0 \<and> y p < y plat + height plat \<and> y p > y plat
                     then (p\<lparr>y := y plat + height plat, vy := 0\<rparr>, onGround)
                     else (p, onGround)))
         else (p, onGround))"

definition collisionResolution :: "Platform list \<Rightarrow> Entity \<Rightarrow> Entity \<times> bool" where
  "collisionResolution plats p = fold collidePlayer plats (p, False)"

definition playerMotion :: "GameState \<Rightarrow> GameState" where
  "playerMotion s =
     s\<lparr>player := fst (collisionResolution (platforms s) (playerPhysics (player s)))\<rparr>"

subsection \<open>Reading logic\<close>

definition openChest :: "nat \<Rightarrow> Entity list \<Rightarrow> Entity list" where
  "openChest i es = es[i := (es ! i)\<lparr>isOpened := Some True\<rparr>]"

definition readingLogic :: "Rnd \<Rightarrow> GameState \<Rightarrow> GameState" where
  "readingLogic rnd s =
     (case interactionTarget s of
        Some chest \<Rightarrow>
          if isReading s then
            (let s1 = s\<lparr>readingTimer := readingTimer s + 1\<rparr>
             in if readingTimer s1 \<ge> 90 then
                  (let s2 = s1\<lparr>entities := openChest chest (entities s1),
                               isLootMenuOpen := True, isReading := False,
                               readingTimer := 0, lootModal := Some (generateLoot rnd)\<rparr>
                   in if potionDrop rnd < 0.4 then s2\<lparr>potion := potion s2 + 1\<rparr> else s2)
                else s1)
          else s
      | None \<Rightarrow> s)"

subsection \<open>Combat logic\<close>

text \<open>
  \<open>forEachEntity\<close> is \<open>entitiesRef.current.forEach\<close> for a callback that mutates
  the entity it visits and the kill counter \<open>killsRef.current\<close>.
\<close>

fun forEachEntity :: "(Entity \<Rightarrow> nat \<Rightarrow> Entity \<times> nat) \<Rightarrow> Entity list \<Rightarrow> nat \<Rightarrow> Entity list \<times> nat" where
  "forEachEntity f [] k = ([], k)"
| "forEachEntity f (e # es) k =
     (let r = f e k; rs = forEachEntity f es (snd r)
      in (fst r # fst rs, snd rs))"

definition isHostile :: "Entity \<Rightarrow> bool" where
  "isHostile e = (type e = MOB_SLIME \<or> type e = MOB_BAT \<or> type e = ROGUE_AGENT)"

definition countKill :: "Entity \<Rightarrow> nat \<Rightarrow> Entity \<times> nat" where
  "countKill e k = (if hp e \<le> 0 \<and> type e = ROGUE_AGENT then (e, k + 1) else (e, k))"

definition hitBox :: "Entity \<Rightarrow> Rect" where
  "hitBox p =
     \<lparr>x = (if facing p = 1 then x p + width p else x p - 120),
      y = y p - 10, width = 120, height = height p + 20\<rparr>"

definition attackHit :: "Entity \<Rightarrow> Entity \<Rightarrow> nat \<Rightarrow> Entity \<times> nat" where
  "attackHit p e k =
     (if isHostile e \<and> \<not> isDead e then
        (if rectIntersect (hitBox p) e
         then countKill (e\<lparr>hp := hp e - 20, hitFlashTimer := 5,
                           vx := real_of_int (facing p) * 15, vy := - 6\<rparr>) k
         else (e, k))
      else (e, k))"

definition whirlwindHit :: "Entity \<Rightarrow> Entity \<Rightarrow> nat \<Rightarrow> Entity \<times> nat" where
  "whirlwindHit p e k =
     (if isHostile e \<and> \<not> isDead e then
        (if getDistance p e < 150
         then countKill (e\<lparr>hp := hp e - 40, hitFlashTimer := 10,
                           vx := (if x e - x p > 0 then 1 else - 1) * 20, vy := - 10\<rparr>) k
         else (e, k))
      else (e, k))"

definition meteorHit :: "Entity \<Rightarrow> Entity \<Rightarrow> nat \<Rightarrow> Entity \<times> nat" where
  "meteorHit p e k =
     (if isHostile e \<and> \<not> isDead e then
        (let targetX = x p + real_of_int (facing p) * 250;
             distance = sqrt ((x e - targetX)\<^sup>2 + (y e - y p)\<^sup>2)
         in if distance < 120
            then countKill (e\<lparr>hp := hp e - 60, hitFlashTimer := 10, vy := - 12\<rparr>) k
            else (e, k))
      else (e, k))"

definition basicAttack :: "GameState \<Rightarrow> GameState" where
  "basicAttack s =
     (if keys s ''KeyJ'' \<and> attackCooldown (player s) \<le> 0
      then (let p = (player s)\<lparr>attackCooldown := 20\<rparr>;
                r = forEachEntity (attackHit p) (entities s) (kills s)
            in s\<lparr>player := p, entities := fst r, kills := snd r\<rparr>)
      else s)"

definition skillOrZero :: "Entity \<Rightarrow> nat" where
  "skillOrZero p = (case skillCooldown p of Some c \<Rightarrow> c | None \<Rightarrow> 0)"

definition skill :: "HeroType \<Rightarrow> GameState \<Rightarrow> GameState" where
  "skill heroType s =
     (if keys s ''KeyK'' \<and> skillOrZero (player s) \<le> 0
      then (let p = (player s)\<lparr>skillCooldown := Some 180\<rparr>;
                r = (if heroType = SWORDSMAN
                     then forEachEntity (whirlwindHit p) (entities s) (kills s)
                     else forEachEntity (meteorHit p) (entities s) (kills s))
            in s\<lparr>player := p, entities := fst r, kills := snd r\<rparr>)
      else s)"

definition combat :: "HeroType \<Rightarrow> GameState \<Rightarrow> GameState" where
  "combat heroType s =
     (if \<not> isLootMenuOpen s then skill heroType (basicAttack s) else s)"

definition playerCooldowns :: "Entity \<Rightarrow> Entity" where
  "playerCooldowns p =
     (let p1 = (if attackCooldown p > 0 then p\<lparr>attackCooldown := attackCooldown p - 1\<rparr> else p);
          p2 = (if hitFlashTimer p1 > 0 then p1\<lparr>hitFlashTimer := hitFlashTimer p1 - 1\<rparr> else p1)
      in (case skillCooldown p2 of
            Some c \<Rightarrow> if c > 0 then p2\<lparr>skillCooldown := Some (c - 1)\<rparr> else p2
          | None \<Rightarrow> p2))"

subsection \<open>Entity loop\<close>

definition entityPhysics :: "Entity \<Rightarrow> Entity" where
  "entityPhysics e =
     (let e1 = (if type e \<noteq> MOB_BAT then e\<lparr>vy := vy e + GRAVITY\<rparr> else e);
          e2 = e1\<lparr>x := x e1 + vx e1\<rparr>;
          e3 = e2\<lparr>y := y e2 + vy e2\<rparr>
      in e3\<lparr>vx := vx e3 * FRICTION\<rparr>)"

text \<open>
  The platform callback of the entity loop; the second component is the local
  \<open>entityOnGround\<close>.
\<close>

definition collideEntity :: "Platform \<Rightarrow> Entity \<times> bool \<Rightarrow> Entity \<times> bool" where
  "collideEntity plat eg =
     (let e = fst eg; entityOnGround = snd eg
      in if rectIntersect e plat then
           (if ptype plat = LAVA
            then (if type e \<noteq> MOB_BAT then (e\<lparr>hp := 0\<rparr>, entityOnGround)
                  else (e, entityOnGround))
            else if vy e > 0 \<and> (y e + height e) - y plat \<le> 20
            then (e\<lparr>y := y plat - height e, vy := 0\<rparr>, True)
            else (e, entityOnGround))
         else (e, entityOnGround))"

definition entityTimers :: "Entity \<Rightarrow> Entity" where
  "entityTimers e =
     (let e1 = (if hitFlashTimer e > 0 then e\<lparr>hitFlashTimer := hitFlashTimer e - 1\<rparr> else e)
      in (case jumpCooldown e1 of
            Some c \<Rightarrow> if c > 0 then e1\<lparr>jumpCooldown := Some (c - 1)\<rparr> else e1
          | None \<Rightarrow> e1))"

definition jumpOrZero :: "Entity \<Rightarrow> nat" where
  "jumpOrZero e = (case jumpCooldown e of Some c \<Rightarrow> c | None \<Rightarrow> 0)"

text \<open>
  The rogue branch of the AI, in its three consecutive parts: steering (acceleration,
  speed cap, facing), the jump logic, and the melee strike on the player.
\<close>

definition rogueSteer :: "real \<Rightarrow> Entity \<Rightarrow> Entity \<Rightarrow> Entity" where
  "rogueSteer distance p e =
     (let dx = x p - x e;
          dir0 = (if dx > 0 then 1 else - 1);
          retreat = (attackCooldown e > 0 \<and> distance < 120);
          dir = (if retreat then dir0 * (- 1) else dir0);
          moveSpeed = (if retreat then 0.3 else 0.5);
          v1 = vx e + dir * moveSpeed;
          v2 = (if v1 > 2.5 then 2.5 else v1);
          v3 = (if v2 < - 2.5 then - 2.5 else v2)
      in e\<lparr>vx := v3, facing := (if dx > 0 then 1 else - 1)\<rparr>)"

definition rogueJump :: "bool \<Rightarrow> Entity \<Rightarrow> Entity \<Rightarrow> Entity" where
  "rogueJump entityOnGround p e =
     (let dx = x p - x e;
          dy = y p - y e
      in if jumpOrZero e \<le> 0 \<and> entityOnGround then
           (if dy < - 60
            then e\<lparr>vy := JUMP_FORCE, jumpCooldown := Some 60\<rparr>
            else if \<bar>vx e\<bar> < 1 \<and> \<bar>dx\<bar> > 30
            then e\<lparr>vy := JUMP_FORCE, jumpCooldown := Some 60\<rparr>
            else e)
         else e)"

definition rogueStrike :: "real \<Rightarrow> Entity \<times> Entity \<Rightarrow> Entity \<times> Entity" where
  "rogueStrike distance pe =
     (let p = fst pe; e = snd pe
      in if distance < 60 \<and> attackCooldown e \<le> 0
         then (p\<lparr>hp := hp p - 6, hitFlashTimer := 5,
                 vx := (if x p > x e then 1 else - 1) * 10\<rparr>,
               e\<lparr>attackCooldown := 45\<rparr>)
         else (p, e))"

definition rogueAI :: "bool \<Rightarrow> real \<Rightarrow> Entity \<times> Entity \<Rightarrow> Entity \<times> Entity" where
  "rogueAI entityOnGround distance pe =
     rogueStrike distance
       (fst pe, rogueJump entityOnGround (fst pe) (rogueSteer distance (fst pe) (snd pe)))"

definition slimeAI :: "real \<Rightarrow> Entity \<times> Entity \<Rightarrow> Entity \<times> Entity" where
  "slimeAI distance pe =
     (let p = fst pe; e = snd pe;
          dx = x p - x e;
          dir = (if dx > 0 then 1 else - 1);
          e1 = e\<lparr>vx := vx e + real_of_int dir * 0.2\<rparr>;
          e2 = e1\<lparr>facing := dir\<rparr>
      in if distance < 40 \<and> rectIntersect e2 p
         then (p\<lparr>hp := hp p - 0.2\<rparr>, e2)
         else (p, e2))"

definition batAI :: "Entity \<times> Entity \<Rightarrow> Entity \<times> Entity" where
  "batAI pe =
     (let p = fst pe; e = snd pe;
          dx = x p - x e;
          dy = y p - y e;
          dir = (if dx > 0 then 1 else - 1);
          e1 = e\<lparr>vx := vx e + dir * 0.3\<rparr>;
          e2 = e1\<lparr>vy := vy e1 + (if dy > 0 then 1 else - 1) * 0.1\<rparr>
      in (p, e2\<lparr>vy := vy e2 * 0.9\<rparr>))"

definition entityAI :: "bool \<Rightarrow> Entity \<times> Entity \<Rightarrow> Entity \<times> Entity" where
  "entityAI entityOnGround pe =
     (let distance = getDistance (snd pe) (fst pe)
      in if distance < 800 then
           (if type (snd pe) = ROGUE_AGENT then rogueAI entityOnGround distance pe
            else if type (snd pe) = MOB_SLIME then slimeAI distance pe
            else if type (snd pe) = MOB_BAT then batAI pe
            else pe)
         else pe)"

definition entityFinish :: "Entity \<Rightarrow> Entity" where
  "entityFinish e =
     (let e1 = (if attackCooldown e > 0 then e\<lparr>attackCooldown := attackCooldown e - 1\<rparr> else e)
      in if hp e1 \<le> 0 then e1\<lparr>isDead := True\<rparr> else e1)"

text \<open>
  The callback of the entity loop: it mutates the entity it visits and the player.
\<close>

definition updateEntity :: "Platform list \<Rightarrow> Entity \<times> Entity \<Rightarrow> Entity \<times> Entity" where
  "updateEntity plats pe =
     (let p = fst pe; e = snd pe
      in if isDead e \<or> type e = CHEST then (p, e)
         else (let eg = fold collideEntity plats (entityPhysics e, False);
                   r = entityAI (snd eg) (p, entityTimers (fst eg))
               in (fst r, entityFinish (snd r))))"

fun entityLoop :: "Platform list \<Rightarrow> Entity \<Rightarrow> Entity list \<Rightarrow> Entity \<times> Entity list" where
  "entityLoop plats p [] = (p, [])"
| "entityLoop plats p (e # es) =
     (let r = updateEntity plats (p, e); rs = entityLoop plats (fst r) es
      in (fst rs, snd r # snd rs))"

definition entityUpdate :: "GameState \<Rightarrow> GameState" where
  "entityUpdate s =
     (let r = entityLoop (platforms s) (player s) (entities s)
      in s\<lparr>player := fst r, entities := snd r\<rparr>)"

subsection \<open>Game end and extraction\<close>

definition gameEnd :: "GameState \<Rightarrow> GameState" where
  "gameEnd s =
     (if hp (player s) \<le> 0
      then s\<lparr>gameOver := True, gameOverCalls := gameOverCalls s @ [(False, 0, kills s)]\<rparr>
      else s)"

definition zoneAbove :: "Platform \<Rightarrow> Rect" where
  "zoneAbove targetPlat =
     \<lparr>x = x targetPlat + width targetPlat / 2 - 40, y = y targetPlat - 100,
      width = 80, height = 100\<rparr>"

text \<open>
  At frame 1800 the portal opens above a platform drawn from the non-LAVA, non-WOOD
  ones. Indexing the array outside its range gives \<open>undefined\<close>, and reading a field
  of it raises a TypeError that ends the frame.
\<close>

definition openExtraction :: "Rnd \<Rightarrow> GameState \<Rightarrow> error + GameState" where
  "openExtraction rnd s =
     (if time s = 1800 then
        (let validPlats = filter (\<lambda>plat. ptype plat \<noteq> LAVA \<and> ptype plat \<noteq> WOOD) (platforms s);
             i = \<lfloor>extractPick rnd * real (length validPlats)\<rfloor>
         in if 0 \<le> i \<and> nat i < length validPlats
            then Inr (s\<lparr>extractionActive := True,
                        extractionZone := Some (zoneAbove (validPlats ! nat i))\<rparr>)
            else Inl TypeError)
      else Inr s)"

definition inventoryTotal :: "Item list \<Rightarrow> real" where
  "inventoryTotal items = foldl (\<lambda>a b. a + itemValue b) 0 items"

definition extractionDwell :: "GameState \<Rightarrow> GameState" where
  "extractionDwell s =
     (case extractionZone s of
        Some zone \<Rightarrow>
          if extractionActive s then
            (if rectIntersect (player s) zone then
               (let s1 = s\<lparr>extractionFrameCount := extractionFrameCount s + 1\<rparr>
                in if extractionFrameCount s1 > 180
                   then s1\<lparr>gameOver := True,
                          gameOverCalls := gameOverCalls s1 @
                            [(True, inventoryTotal (inventory s1), kills s1)]\<rparr>
                   else s1)
             else s\<lparr>extractionFrameCount := 0\<rparr>)
          else s
      | None \<Rightarrow> s)"

subsection \<open>One frame\<close>

definition tick :: "GameState \<Rightarrow> GameState" where
  "tick s = s\<lparr>time := time s + 1\<rparr>"

definition afterInput :: "Rnd \<Rightarrow> GameState \<Rightarrow> GameState" where
  "afterInput rnd s = playerInput (spawnRogue (spawnMob rnd (tick s)))"

definition afterReading :: "Rnd \<Rightarrow> GameState \<Rightarrow> GameState" where
  "afterReading rnd s = readingLogic rnd (playerMotion (afterInput rnd s))"

definition afterCombat :: "HeroType \<Rightarrow> Rnd \<Rightarrow> GameState \<Rightarrow> GameState" where
  "afterCombat heroType rnd s =
     (let s1 = combat heroType (afterReading rnd s)
      in s1\<lparr>player := playerCooldowns (player s1)\<rparr>)"

definition afterGameEnd :: "HeroType \<Rightarrow> Rnd \<Rightarrow> GameState \<Rightarrow> GameState" where
  "afterGameEnd heroType rnd s = gameEnd (entityUpdate (afterCombat heroType rnd s))"

definition loop :: "HeroType \<Rightarrow> Rnd \<Rightarrow> GameState \<Rightarrow> error + GameState" where
  "loop heroType rnd s =
     (if gameOver s then Inr s
      else (case openExtraction rnd (afterGameEnd heroType rnd s) of
              Inl err \<Rightarrow> Inl err
            | Inr s1 \<Rightarrow> Inr (extractionDwell s1)))"

text \<open>
  The states a session can be in: the state at mount, and from there any interleaving
  of frames, key events and the two modal decisions.
\<close>

inductive reachable :: "HeroType \<Rightarrow> GameState \<Rightarrow> bool" for heroType :: HeroType where
  start: "reachable heroType (initState rs)"
| frame: "reachable heroType s \<Longrightarrow> loop heroType rnd s = Inr s' \<Longrightarrow> reachable heroType s'"
| keyDown: "reachable heroType s \<Longrightarrow> reachable heroType (handleKeyDown code s)"
| keyUp: "reachable heroType s \<Longrightarrow> reachable heroType (handleKeyUp code s)"
| pickup: "reachable heroType s \<Longrightarrow> lootModal s \<noteq> None \<Longrightarrow> reachable heroType (handlePickup s)"
| discard: "reachable heroType s \<Longrightarrow> lootModal s \<noteq> None \<Longrightarrow> reachable heroType (handleDiscard s)"

section \<open>Accepting and discarding loot\<close>

definition coin :: Item where
  "coin = \<lparr>name = ''COMMON Coin'', rarity = COMMON, itemValue = 5, color = ''#2ecc71''\<rparr>"

definition lootOffered :: "nat \<Rightarrow> GameState" where
  "lootOffered n =
     (initState [])\<lparr>inventory := replicate n coin, lootModal := Some coin,
                    isLootMenuOpen := True\<rparr>"

text \<open>
  C9. \<open>handlePickup\<close> appends the offered item to the inventory only while the
  inventory holds fewer than 20 items; with a full inventory the item is dropped and
  nothing but the modal and the menu flag changes. After \<open>handlePickup\<close> and after
  \<open>handleDiscard\<close> the loot-menu-open flag is false, and a discard never changes
  the inventory. Both handlers are total: no error value exists for them.
\<close>

theorem handlePickup_cap:
  "(lootModal s = Some it \<and> length (inventory s) < 20 \<longrightarrow>
      handlePickup s =
        s\<lparr>inventory := inventory s @ [it], lootModal := None, isLootMenuOpen := False\<rparr>) \<and>
   (length (inventory s) \<ge> 20 \<or> lootModal s = None \<longrightarrow>
      handlePickup s = s\<lparr>lootModal := None, isLootMenuOpen := False\<rparr>) \<and>
   (length (inventory s) \<le> 20 \<longrightarrow> length (inventory (handlePickup s)) \<le> 20) \<and>
   handleDiscard s = s\<lparr>lootModal := None, isLootMenuOpen := False\<rparr> \<and>
   \<not> isLootMenuOpen (handlePickup s) \<and> \<not> isLootMenuOpen (handleDiscard s) \<and>
   inventory (handleDiscard s) = inventory s"
  by (auto simp: handlePickup_def handleDiscard_def INVENTORY_CAP_def split: option.splits)

theorem handlePickup_cap_witness:
  "lootModal (lootOffered 19) = Some coin \<and> length (inventory (lootOffered 19)) = 19 \<and>
   inventory (handlePickup (lootOffered 19)) = replicate 19 coin @ [coin] \<and>
   length (inventory (lootOffered 20)) = 20 \<and>
   inventory (handlePickup (lootOffered 20)) = replicate 20 coin \<and>
   isLootMenuOpen (lootOffered 20) \<and> \<not> isLootMenuOpen (handlePickup (lootOffered 20))"
  using handlePickup_cap [of "lootOffered 19" coin] handlePickup_cap [of "lootOffered 20" coin]
  by (simp add: lootOffered_def initState_def)

section \<open>Resting on a platform after the collision pass\<close>

text \<open>
  The support-snap branch of the two platform callbacks, as a predicate on the entity as
  it is when the platform is visited, and the last platform of a pass whose support-snap
  branch applied (the pass is replayed to know the entity at each platform).
\<close>

definition supportsPlayer :: "Entity \<Rightarrow> Platform \<Rightarrow> bool" where
  "supportsPlayer p plat =
     (rectIntersect p plat \<and> ptype plat \<noteq> LAVA \<and> vy p \<ge> 0 \<and>
      (y p + height p) - y plat \<le> 20 \<and> (y p + height p) - y plat \<ge> 0)"

definition supportsEntity :: "Entity \<Rightarrow> Platform \<Rightarrow> bool" where
  "supportsEntity e plat =
     (rectIntersect e plat \<and> ptype plat \<noteq> LAVA \<and> vy e > 0 \<and>
      (y e + height e) - y plat \<le> 20)"

fun lastSupportPlayer :: "Platform list \<Rightarrow> Entity \<Rightarrow> Platform option \<Rightarrow> Platform option" where
  "lastSupportPlayer [] p r = r"
| "lastSupportPlayer (plat # ps) p r =
     lastSupportPlayer ps (fst (collidePlayer plat (p, False)))
       (if supportsPlayer p plat then Some plat else r)"

fun lastSupportEntity :: "Platform list \<Rightarrow> Entity \<Rightarrow> Platform option \<Rightarrow> Platform option" where
  "lastSupportEntity [] e r = r"
| "lastSupportEntity (plat # ps) e r =
     lastSupportEntity ps (fst (collideEntity plat (e, False)))
       (if supportsEntity e plat then Some plat else r)"

lemma collidePlayer_fst: "fst (collidePlayer plat (p, g)) = fst (collidePlayer plat (p, False))"
  by (simp add: collidePlayer_def Let_def)

lemma collidePlayer_snd:
  "snd (collidePlayer plat (p, g)) = (g \<or> supportsPlayer p plat)"
  by (auto simp: collidePlayer_def Let_def supportsPlayer_def)

lemma collideEntity_fst: "fst (collideEntity plat (e, g)) = fst (collideEntity plat (e, False))"
  by (simp add: collideEntity_def Let_def)

lemma collideEntity_snd:
  "snd (collideEntity plat (e, g)) = (g \<or> supportsEntity e plat)"
  by (auto simp: collideEntity_def Let_def supportsEntity_def)

lemma player_pass_rests:
  "lastSupportPlayer ps p r = Some plat \<Longrightarrow>
   (\<forall>q. r = Some q \<longrightarrow> vy p = 0 \<and> y p + height p = y q \<and> ptype q \<noteq> LAVA \<and> q \<in> S) \<Longrightarrow>
   set ps \<subseteq> S \<Longrightarrow>
   vy (fst (fold collidePlayer ps (p, g))) = 0 \<and>
   y (fst (fold collidePlayer ps (p, g))) + height (fst (fold collidePlayer ps (p, g))) = y plat \<and>
   ptype plat \<noteq> LAVA \<and> plat \<in> S"
proof (induction ps arbitrary: p r g)
  case Nil
  then show ?case by simp
next
  case (Cons a ps)
  obtain p1 g1 where step: "collidePlayer a (p, g) = (p1, g1)" by (cases "collidePlayer a (p, g)")
  have p1: "p1 = fst (collidePlayer a (p, False))"
    using step collidePlayer_fst [of a p g] by simp
  let ?r = "if supportsPlayer p a then Some a else r"
  have last: "lastSupportPlayer ps p1 ?r = Some plat"
    using Cons.prems(1) p1 by simp
  have inv: "\<forall>q. ?r = Some q \<longrightarrow> vy p1 = 0 \<and> y p1 + height p1 = y q \<and> ptype q \<noteq> LAVA \<and> q \<in> S"
  proof (cases "supportsPlayer p a")
    case True
    then show ?thesis using p1 Cons.prems(3)
      by (simp add: collidePlayer_def supportsPlayer_def Let_def)
  next
    case False
    then show ?thesis using p1 Cons.prems(2)
      by (auto simp: collidePlayer_def supportsPlayer_def Let_def)
  qed
  have "set ps \<subseteq> S" using Cons.prems(3) by simp
  from Cons.IH [OF last inv this, of g1] show ?case by (simp add: step)
qed

lemma player_pass_ground:
  "snd (fold collidePlayer ps (p, g)) = (g \<or> lastSupportPlayer ps p None \<noteq> None)"
proof (induction ps arbitrary: p g)
  case Nil
  then show ?case by simp
next
  case (Cons a ps)
  obtain p1 g1 where step: "collidePlayer a (p, g) = (p1, g1)" by (cases "collidePlayer a (p, g)")
  have p1: "p1 = fst (collidePlayer a (p, False))"
    using step collidePlayer_fst [of a p g] by simp
  have g1: "g1 = (g \<or> supportsPlayer p a)"
    using step collidePlayer_snd [of a p g] by simp
  have mono: "lastSupportPlayer ps q (Some a) \<noteq> None" for q
    by (induction ps arbitrary: q a) auto
  show ?case
    using Cons.IH [of p1 g1] by (auto simp: step p1 [symmetric] g1 mono)
qed

lemma entity_pass_rests:
  "lastSupportEntity ps e r = Some plat \<Longrightarrow>
   (\<forall>q. r = Some q \<longrightarrow> vy e = 0 \<and> y e + height e = y q \<and> ptype q \<noteq> LAVA \<and> q \<in> S) \<Longrightarrow>
   set ps \<subseteq> S \<Longrightarrow>
   vy (fst (fold collideEntity ps (e, g))) = 0 \<and>
   y (fst (fold collideEntity ps (e, g))) + height (fst (fold collideEntity ps (e, g))) = y plat \<and>
   ptype plat \<noteq> LAVA \<and> plat \<in> S"
proof (induction ps arbitrary: e r g)
  case Nil
  then show ?case by simp
next
  case (Cons a ps)
  obtain e1 g1 where step: "collideEntity a (e, g) = (e1, g1)" by (cases "collideEntity a (e, g)")
  have e1: "e1 = fst (collideEntity a (e, False))"
    using step collideEntity_fst [of a e g] by simp
  let ?r = "if supportsEntity e a then Some a else r"
  have last: "lastSupportEntity ps e1 ?r = Some plat"
    using Cons.prems(1) e1 by simp
  have inv: "\<forall>q. ?r = Some q \<longrightarrow> vy e1 = 0 \<and> y e1 + height e1 = y q \<and> ptype q \<noteq> LAVA \<and> q \<in> S"
  proof (cases "supportsEntity e a")
    case True
    then show ?thesis using e1 Cons.prems(3)
      by (simp add: collideEntity_def supportsEntity_def Let_def)
  next
    case False
    then show ?thesis using e1 Cons.prems(2)
      by (auto simp: collideEntity_def supportsEntity_def Let_def)
  qed
  have "set ps \<subseteq> S" using Cons.prems(3) by simp
  from Cons.IH [OF last inv this, of g1] show ?case by (simp add: step)
qed

lemma entity_pass_ground:
  "snd (fold collideEntity ps (e, g)) = (g \<or> lastSupportEntity ps e None \<noteq> None)"
proof (induction ps arbitrary: e g)
  case Nil
  then show ?case by simp
next
  case (Cons a ps)
  obtain e1 g1 where step: "collideEntity a (e, g) = (e1, g1)" by (cases "collideEntity a (e, g)")
  have e1: "e1 = fst (collideEntity a (e, False))"
    using step collideEntity_fst [of a e g] by simp
  have g1: "g1 = (g \<or> supportsEntity e a)"
    using step collideEntity_snd [of a e g] by simp
  have mono: "lastSupportEntity ps q (Some a) \<noteq> None" for q
    by (induction ps arbitrary: q a) auto
  show ?case
    using Cons.IH [of e1 g1] by (auto simp: step e1 [symmetric] g1 mono)
qed

lemma support_snap_pass:
  "(lastSupportPlayer plats p None = Some plat \<longrightarrow>
      vy (fst (collisionResolution plats p)) = 0 \<and>
      y (fst (collisionResolution plats p)) + height (fst (collisionResolution plats p)) = y plat \<and>
      ptype plat \<noteq> LAVA \<and> plat \<in> set plats) \<and>
   snd (collisionResolution plats p) = (lastSupportPlayer plats p None \<noteq> None) \<and>
   (lastSupportEntity plats e None = Some plat \<longrightarrow>
      vy (fst (fold collideEntity plats (e, False))) = 0 \<and>
      y (fst (fold collideEntity plats (e, False))) +
        height (fst (fold collideEntity plats (e, False))) = y plat \<and>
      ptype plat \<noteq> LAVA \<and> plat \<in> set plats) \<and>
   snd (fold collideEntity plats (e, False)) = (lastSupportEntity plats e None \<noteq> None)"
  using player_pass_rests [of plats p None plat "set plats" False]
    entity_pass_rests [of plats e None plat "set plats" False]
    player_pass_ground [of plats p False] entity_pass_ground [of plats e False]
  by (simp add: collisionResolution_def)

section \<open>What the parts of the entity loop leave alone\<close>

lemma entityPhysics_keeps:
  "type (entityPhysics e) = type e \<and> isOpened (entityPhysics e) = isOpened e \<and>
   isDead (entityPhysics e) = isDead e \<and> hp (entityPhysics e) = hp e \<and>
   width (entityPhysics e) = width e \<and> height (entityPhysics e) = height e"
  by (simp add: entityPhysics_def Let_def)

lemma collideEntity_keeps:
  "type (fst (collideEntity plat a)) = type (fst a) \<and>
   isOpened (fst (collideEntity plat a)) = isOpened (fst a) \<and>
   isDead (fst (collideEntity plat a)) = isDead (fst a) \<and>
   x (fst (collideEntity plat a)) = x (fst a) \<and>
   vx (fst (collideEntity plat a)) = vx (fst a) \<and>
   width (fst (collideEntity plat a)) = width (fst a) \<and>
   height (fst (collideEntity plat a)) = height (fst a)"
  by (simp add: collideEntity_def Let_def)

lemma collideEntity_pass_keeps:
  "type (fst (fold collideEntity ps a)) = type (fst a) \<and>
   isOpened (fst (fold collideEntity ps a)) = isOpened (fst a) \<and>
   isDead (fst (fold collideEntity ps a)) = isDead (fst a) \<and>
   x (fst (fold collideEntity ps a)) = x (fst a) \<and>
   vx (fst (fold collideEntity ps a)) = vx (fst a) \<and>
   width (fst (fold collideEntity ps a)) = width (fst a) \<and>
   height (fst (fold collideEntity ps a)) = height (fst a)"
proof (induction ps arbitrary: a)
  case Nil
  then show ?case by simp
next
  case (Cons plat ps)
  show ?case using Cons.IH [of "collideEntity plat a"] by (simp add: collideEntity_keeps)
qed

lemma entityTimers_keeps:
  "type (entityTimers e) = type e \<and> isOpened (entityTimers e) = isOpened e \<and>
   isDead (entityTimers e) = isDead e \<and> hp (entityTimers e) = hp e \<and>
   x (entityTimers e) = x e \<and> y (entityTimers e) = y e \<and>
   vx (entityTimers e) = vx e \<and> vy (entityTimers e) = vy e \<and>
   width (entityTimers e) = width e \<and> height (entityTimers e) = height e"
  by (simp add: entityTimers_def Let_def split: option.splits)

lemma rogueSteer_keeps:
  "type (rogueSteer d p e) = type e \<and> isOpened (rogueSteer d p e) = isOpened e \<and>
   isDead (rogueSteer d p e) = isDead e \<and> hp (rogueSteer d p e) = hp e \<and>
   x (rogueSteer d p e) = x e \<and> y (rogueSteer d p e) = y e \<and>
   width (rogueSteer d p e) = width e \<and> height (rogueSteer d p e) = height e"
  by (simp add: rogueSteer_def Let_def)

lemma rogueJump_keeps:
  "type (rogueJump g p e) = type e \<and> isOpened (rogueJump g p e) = isOpened e \<and>
   isDead (rogueJump g p e) = isDead e \<and> hp (rogueJump g p e) = hp e \<and>
   x (rogueJump g p e) = x e \<and> y (rogueJump g p e) = y e \<and>
   width (rogueJump g p e) = width e \<and> height (rogueJump g p e) = height e"
  by (simp add: rogueJump_def Let_def)

lemma rogueStrike_keeps:
  "type (snd (rogueStrike d pe)) = type (snd pe) \<and>
   isOpened (snd (rogueStrike d pe)) = isOpened (snd pe) \<and>
   isDead (snd (rogueStrike d pe)) = isDead (snd pe) \<and>
   hp (snd (rogueStrike d pe)) = hp (snd pe) \<and>
   x (snd (rogueStrike d pe)) = x (snd pe) \<and> y (snd (rogueStrike d pe)) = y (snd pe) \<and>
   width (snd (rogueStrike d pe)) = width (snd pe) \<and>
   height (snd (rogueStrike d pe)) = height (snd pe)"
  by (simp add: rogueStrike_def Let_def)

lemma rogueAI_keeps:
  "type (snd (rogueAI g d pe)) = type (snd pe) \<and>
   isOpened (snd (rogueAI g d pe)) = isOpened (snd pe) \<and>
   isDead (snd (rogueAI g d pe)) = isDead (snd pe) \<and>
   hp (snd (rogueAI g d pe)) = hp (snd pe) \<and>
   x (snd (rogueAI g d pe)) = x (snd pe) \<and> y (snd (rogueAI g d pe)) = y (snd pe) \<and>
   width (snd (rogueAI g d pe)) = width (snd pe) \<and>
   height (snd (rogueAI g d pe)) = height (snd pe)"
  by (simp add: rogueAI_def rogueStrike_keeps rogueJump_keeps rogueSteer_keeps)

lemma slimeAI_keeps:
  "type (snd (slimeAI d pe)) = type (snd pe) \<and>
   isOpened (snd (slimeAI d pe)) = isOpened (snd pe) \<and>
   isDead (snd (slimeAI d pe)) = isDead (snd pe) \<and>
   hp (snd (slimeAI d pe)) = hp (snd pe) \<and>
   x (snd (slimeAI d pe)) = x (snd pe) \<and> y (snd (slimeAI d pe)) = y (snd pe) \<and>
   width (snd (slimeAI d pe)) = width (snd pe) \<and>
   height (snd (slimeAI d pe)) = height (snd pe)"
  by (simp add: slimeAI_def Let_def)

lemma batAI_keeps:
  "type (snd (batAI pe)) = type (snd pe) \<and>
   isOpened (snd (batAI pe)) = isOpened (snd pe) \<and>
   isDead (snd (batAI pe)) = isDead (snd pe) \<and>
   hp (snd (batAI pe)) = hp (snd pe) \<and>
   x (snd (batAI pe)) = x (snd pe) \<and> y (snd (batAI pe)) = y (snd pe) \<and>
   width (snd (batAI pe)) = width (snd pe) \<and>
   height (snd (batAI pe)) = height (snd pe)"
  by (simp add: batAI_def Let_def)

lemma entityAI_keeps:
  "type (snd (entityAI g pe)) = type (snd pe) \<and>
   isOpened (snd (entityAI g pe)) = isOpened (snd pe) \<and>
   isDead (snd (entityAI g pe)) = isDead (snd pe) \<and>
   hp (snd (entityAI g pe)) = hp (snd pe) \<and>
   x (snd (entityAI g pe)) = x (snd pe) \<and> y (snd (entityAI g pe)) = y (snd pe) \<and>
   width (snd (entityAI g pe)) = width (snd pe) \<and>
   height (snd (entityAI g pe)) = height (snd pe)"
  by (simp add: entityAI_def Let_def rogueAI_keeps slimeAI_keeps batAI_keeps)

lemma entityFinish_keeps:
  "type (entityFinish e) = type e \<and> isOpened (entityFinish e) = isOpened e \<and>
   isDead (entityFinish e) = (isDead e \<or> hp e \<le> 0) \<and> hp (entityFinish e) = hp e \<and>
   x (entityFinish e) = x e \<and> y (entityFinish e) = y e \<and>
   vx (entityFinish e) = vx e \<and> vy (entityFinish e) = vy e \<and>
   width (entityFinish e) = width e \<and> height (entityFinish e) = height e"
  by (simp add: entityFinish_def Let_def)

lemma updateEntity_skip:
  "isDead e \<or> type e = CHEST \<Longrightarrow> updateEntity plats (p, e) = (p, e)"
  by (simp add: updateEntity_def)

lemma updateEntity_keeps:
  "type (snd (updateEntity plats (p, e))) = type e \<and>
   isOpened (snd (updateEntity plats (p, e))) = isOpened e \<and>
   (isDead e \<longrightarrow> isDead (snd (updateEntity plats (p, e)))) \<and>
   width (snd (updateEntity plats (p, e))) = width e \<and>
   height (snd (updateEntity plats (p, e))) = height e"
  by (simp add: updateEntity_def Let_def entityFinish_keeps entityAI_keeps entityTimers_keeps
      collideEntity_pass_keeps entityPhysics_keeps)

section \<open>The generated map, written out\<close>

lemma generateMap_list:
  "generateMap =
     [addRect 150 (- 1000) 120 20 STONE, addRect (- 250) (- 800) 120 20 STONE,
      addRect 150 (- 600) 120 20 STONE, addRect (- 250) (- 400) 120 20 STONE,
      addRect 150 (- 200) 120 20 STONE, addRect (- 250) 0 120 20 STONE,
      addRect 150 200 120 20 STONE, addRect (- 250) 400 120 20 STONE,
      addRect 150 600 120 20 STONE, addRect (- 250) 800 120 20 STONE,
      addRect (- 1500) 800 1000 60 DIRT,
      addRect (- 500) 800 1000 60 DIRT,
      addRect 500 800 1000 60 DIRT,
      addRect (- 1200) (- 200) 600 40 STONE,
      addRect (- 1200) (- 600) 200 20 WOOD,
      addRect (- 1000) (- 400) 200 20 WOOD,
      addRect 800 (- 200) 600 40 STONE,
      addRect (- 600) (- 1200) 1200 60 DIRT,
      addRect (- 800) 1400 1600 60 STONE,
      addRect (- 1000) 1000 100 20 WOOD,
      addRect (- 800) 1200 100 20 WOOD,
      addRect 800 1000 100 20 WOOD,
      addRect 1000 1200 100 20 WOOD,
      addRect (- 800) 300 100 20 WOOD,
      addRect (- 800) 550 100 20 WOOD,
      addRect 800 300 100 20 WOOD,
      addRect 800 550 100 20 WOOD,
      addRect (- 2000) 820 500 20 LAVA,
      addRect 1500 820 500 20 LAVA,
      addRect (- 200) 1450 400 20 LAVA,
      addRect (- 10000) 2000 20000 500 STONE,
      addRect (- 200) 0 400 40 DIRT]"
  by (simp add: generateMap_def upt_conv_Cons shaftLedge_def)

section \<open>Contact with hazard-liquid platforms\<close>

lemma collidePlayer_hp_zero:
  "hp (fst a) = 0 \<Longrightarrow> hp (fst (fold collidePlayer ps a)) = 0"
proof (induction ps arbitrary: a)
  case Nil
  then show ?case by simp
next
  case (Cons plat ps)
  have "hp (fst (collidePlayer plat a)) = 0"
    using Cons.prems by (simp add: collidePlayer_def Let_def)
  then show ?case using Cons.IH by simp
qed

lemma collideEntity_hp_zero:
  "hp (fst a) = 0 \<Longrightarrow> hp (fst (fold collideEntity ps a)) = 0"
proof (induction ps arbitrary: a)
  case Nil
  then show ?case by simp
next
  case (Cons plat ps)
  have "hp (fst (collideEntity plat a)) = 0"
    using Cons.prems by (simp add: collideEntity_def Let_def)
  then show ?case using Cons.IH by simp
qed

lemma collideEntity_bat_hp:
  "type (fst a) = MOB_BAT \<Longrightarrow> hp (fst (fold collideEntity ps a)) = hp (fst a)"
proof (induction ps arbitrary: a)
  case Nil
  then show ?case by simp
next
  case (Cons plat ps)
  have "hp (fst (collideEntity plat a)) = hp (fst a) \<and> type (fst (collideEntity plat a)) = MOB_BAT"
    using Cons.prems by (simp add: collideEntity_def Let_def)
  then show ?case using Cons.IH [of "collideEntity plat a"] by simp
qed

lemma updateEntity_hp:
  "\<not> isDead e \<Longrightarrow> type e \<noteq> CHEST \<Longrightarrow>
   hp (snd (updateEntity plats (p, e))) = hp (fst (fold collideEntity plats (entityPhysics e, False))) \<and>
   isDead (snd (updateEntity plats (p, e))) =
     (hp (fst (fold collideEntity plats (entityPhysics e, False))) \<le> 0)"
  by (simp add: updateEntity_def Let_def entityFinish_keeps entityAI_keeps entityTimers_keeps
      collideEntity_pass_keeps entityPhysics_keeps)

lemma lava_entity_frame:
  assumes "ptype plat = LAVA" "type e \<noteq> MOB_BAT" "\<not> isDead e" "type e \<noteq> CHEST"
    and "rectIntersect (fst (fold collideEntity ps1 (entityPhysics e, False))) plat"
  shows "hp (snd (updateEntity (ps1 @ plat # ps2) (p, e))) = 0 \<and>
         isDead (snd (updateEntity (ps1 @ plat # ps2) (p, e)))"
proof -
  let ?a = "fold collideEntity ps1 (entityPhysics e, False)"
  have ty: "type (fst ?a) \<noteq> MOB_BAT"
    using assms(2) by (simp add: collideEntity_pass_keeps entityPhysics_keeps)
  have "hp (fst (collideEntity plat ?a)) = 0"
    using assms(1,5) ty by (simp add: collideEntity_def Let_def)
  then have z: "hp (fst (fold collideEntity (ps1 @ plat # ps2) (entityPhysics e, False))) = 0"
    by (simp add: collideEntity_hp_zero)
  show ?thesis
    using z updateEntity_hp [OF assms(3,4), of "ps1 @ plat # ps2" p] by simp
qed

text \<open>
  C3, as the code has it. When the player, or an entity that is not a bat, intersects a
  LAVA platform at the moment the collision pass visits that platform, the platform's
  only effect is to set the health to 0 (no positional correction), and the health is
  still 0 when the pass ends; a non-dead slime or rogue agent is then marked dead with
  health 0 at the end of its update in the same frame. Bats are exempt: the guard
  \<open>e.type !== "MOB_BAT"\<close> leaves a bat's health unchanged by the whole pass.
\<close>

theorem lava_sets_health_zero:
  "(ptype plat = LAVA \<and> rectIntersect (fst (fold collidePlayer ps1 (p, g))) plat \<longrightarrow>
      collidePlayer plat (fold collidePlayer ps1 (p, g)) =
        ((fst (fold collidePlayer ps1 (p, g)))\<lparr>hp := 0\<rparr>, snd (fold collidePlayer ps1 (p, g))) \<and>
      hp (fst (fold collidePlayer (ps1 @ plat # ps2) (p, g))) = 0) \<and>
   (ptype plat = LAVA \<and> type e \<noteq> MOB_BAT \<and>
    rectIntersect (fst (fold collideEntity ps1 (e, g))) plat \<longrightarrow>
      collideEntity plat (fold collideEntity ps1 (e, g)) =
        ((fst (fold collideEntity ps1 (e, g)))\<lparr>hp := 0\<rparr>, snd (fold collideEntity ps1 (e, g))) \<and>
      hp (fst (fold collideEntity (ps1 @ plat # ps2) (e, g))) = 0) \<and>
   (ptype plat = LAVA \<and> type e \<noteq> MOB_BAT \<and> \<not> isDead e \<and> type e \<noteq> CHEST \<and>
    rectIntersect (fst (fold collideEntity ps1 (entityPhysics e, False))) plat \<longrightarrow>
      hp (snd (updateEntity (ps1 @ plat # ps2) (q, e))) = 0 \<and>
      isDead (snd (updateEntity (ps1 @ plat # ps2) (q, e)))) \<and>
   (type e = MOB_BAT \<longrightarrow> hp (fst (fold collideEntity ps (e, g))) = hp e)"
proof -
  have a: "hp (fst (fold collidePlayer (ps1 @ plat # ps2) (p, g))) = 0"
    if "ptype plat = LAVA" "rectIntersect (fst (fold collidePlayer ps1 (p, g))) plat"
  proof -
    have "hp (fst (collidePlayer plat (fold collidePlayer ps1 (p, g)))) = 0"
      using that by (simp add: collidePlayer_def Let_def)
    then show ?thesis by (simp add: collidePlayer_hp_zero)
  qed
  have ty: "type (fst (fold collideEntity ps1 (e, g))) = type e"
    by (simp add: collideEntity_pass_keeps)
  have b: "hp (fst (fold collideEntity (ps1 @ plat # ps2) (e, g))) = 0"
    if "ptype plat = LAVA" "type e \<noteq> MOB_BAT" "rectIntersect (fst (fold collideEntity ps1 (e, g))) plat"
  proof -
    have "hp (fst (collideEntity plat (fold collideEntity ps1 (e, g)))) = 0"
      using that ty by (simp add: collideEntity_def Let_def)
    then show ?thesis by (simp add: collideEntity_hp_zero)
  qed
  have c: "collidePlayer plat a = ((fst a)\<lparr>hp := 0\<rparr>, snd a)"
    if "ptype plat = LAVA" "rectIntersect (fst a) plat" for a
    using that by (simp add: collidePlayer_def Let_def)
  have d: "collideEntity plat a = ((fst a)\<lparr>hp := 0\<rparr>, snd a)"
    if "ptype plat = LAVA" "type (fst a) \<noteq> MOB_BAT" "rectIntersect (fst a) plat" for a
    using that by (simp add: collideEntity_def Let_def)
  show ?thesis
  proof (intro conjI impI)
    assume h: "ptype plat = LAVA \<and> rectIntersect (fst (fold collidePlayer ps1 (p, g))) plat"
    show "collidePlayer plat (fold collidePlayer ps1 (p, g)) =
        ((fst (fold collidePlayer ps1 (p, g)))\<lparr>hp := 0\<rparr>, snd (fold collidePlayer ps1 (p, g)))"
      using h c by blast
    show "hp (fst (fold collidePlayer (ps1 @ plat # ps2) (p, g))) = 0"
      using h a by blast
  next
    assume h: "ptype plat = LAVA \<and> type e \<noteq> MOB_BAT \<and>
      rectIntersect (fst (fold collideEntity ps1 (e, g))) plat"
    show "collideEntity plat (fold collideEntity ps1 (e, g)) =
        ((fst (fold collideEntity ps1 (e, g)))\<lparr>hp := 0\<rparr>, snd (fold collideEntity ps1 (e, g)))"
      using h d [of "fold collideEntity ps1 (e, g)"] ty by simp
    show "hp (fst (fold collideEntity (ps1 @ plat # ps2) (e, g))) = 0"
      using h b by blast
  next
    assume h: "ptype plat = LAVA \<and> type e \<noteq> MOB_BAT \<and> \<not> isDead e \<and> type e \<noteq> CHEST \<and>
      rectIntersect (fst (fold collideEntity ps1 (entityPhysics e, False))) plat"
    show "hp (snd (updateEntity (ps1 @ plat # ps2) (q, e))) = 0"
      using h lava_entity_frame [of plat e ps1 ps2 q] by blast
    show "isDead (snd (updateEntity (ps1 @ plat # ps2) (q, e)))"
      using h lava_entity_frame [of plat e ps1 ps2 q] by blast
  next
    assume "type e = MOB_BAT"
    then show "hp (fst (fold collideEntity ps (e, g))) = hp e"
      using collideEntity_bat_hp [of "(e, g)" ps] by simp
  qed
qed

definition dirtNearby :: Platform where "dirtNearby = addRect (- 1500) 800 1000 60 DIRT"

definition lavaWest :: Platform where "lavaWest = addRect (- 2000) 820 500 20 LAVA"

definition rndZero :: Rnd where
  "rndZero = \<lparr>spawnSide = 0, spawnType = 0, lootRarity = 0, lootValue = 0, lootName = 0,
              potionDrop = 0, extractPick = 0\<rparr>"

definition slimeOverLava :: Entity where
  "slimeOverLava = (newMob rndZero initPlayer)\<lparr>x := - 1800, y := 795\<rparr>"

definition batOverLava :: Entity where
  "batOverLava = (newMob (rndZero\<lparr>spawnType := 0.9\<rparr>) initPlayer)\<lparr>x := - 1800, y := 795\<rparr>"

definition playerOverLava :: Entity where
  "playerOverLava = initPlayer\<lparr>x := - 1800, y := 780\<rparr>"


theorem lava_sets_health_zero_witness:
  "ptype lavaWest = LAVA \<and> rectIntersect playerOverLava lavaWest \<and> hp playerOverLava = 100 \<and>
   collidePlayer lavaWest (playerOverLava, False) = (playerOverLava\<lparr>hp := 0\<rparr>, False) \<and>
   hp (fst (fold collidePlayer [lavaWest, dirtNearby] (playerOverLava, False))) = 0 \<and>
   type slimeOverLava = MOB_SLIME \<and> hp slimeOverLava = 30 \<and> \<not> isDead slimeOverLava \<and>
   rectIntersect slimeOverLava lavaWest \<and>
   collideEntity lavaWest (slimeOverLava, False) = (slimeOverLava\<lparr>hp := 0\<rparr>, False) \<and>
   rectIntersect (entityPhysics slimeOverLava) lavaWest \<and>
   hp (snd (updateEntity [lavaWest, dirtNearby] (initPlayer, slimeOverLava))) = 0 \<and>
   isDead (snd (updateEntity [lavaWest, dirtNearby] (initPlayer, slimeOverLava))) \<and>
   type batOverLava = MOB_BAT \<and>
   hp (fst (fold collideEntity [lavaWest, dirtNearby] (batOverLava, False))) = hp batOverLava"
  using lava_sets_health_zero [where plat = lavaWest and ?ps1.0 = "[]" and p = playerOverLava
      and g = False and ?ps2.0 = "[dirtNearby]" and e = slimeOverLava and q = initPlayer]
    lava_sets_health_zero [where e = batOverLava and ps = "[lavaWest, dirtNearby]" and g = False]
  by (simp add: lavaWest_def playerOverLava_def slimeOverLava_def batOverLava_def newMob_def
      rndZero_def initPlayer_def addRect_def rectIntersect_def entityPhysics_def Let_def
      GRAVITY_def FRICTION_def collidePlayer_def collideEntity_def dirtNearby_def)

text \<open>
  The claim as stated fails for bats: a live bat hovering in the western lava pit of the
  generated map intersects the pit throughout its collision pass and ends the frame
  with its health of 30, not dead.
\<close>

theorem lava_spares_bat_counterexample:
  "type batOverLava = MOB_BAT \<and> \<not> isDead batOverLava \<and> hp batOverLava = 30 \<and>
   lavaWest \<in> set generateMap \<and> ptype lavaWest = LAVA \<and>
   rectIntersect (entityPhysics batOverLava) lavaWest \<and>
   rectIntersect (fst (fold collideEntity generateMap (entityPhysics batOverLava, False))) lavaWest \<and>
   hp (snd (updateEntity generateMap (initPlayer, batOverLava))) = 30 \<and>
   \<not> isDead (snd (updateEntity generateMap (initPlayer, batOverLava)))"
proof -
  have pass: "fold collideEntity generateMap (entityPhysics batOverLava, False) =
      (entityPhysics batOverLava, False)"
    by (simp add: generateMap_list addRect_def batOverLava_def newMob_def rndZero_def
        initPlayer_def entityPhysics_def collideEntity_def Let_def rectIntersect_def
        GRAVITY_def FRICTION_def)
  have bat: "type batOverLava = MOB_BAT \<and> \<not> isDead batOverLava \<and> hp batOverLava = 30"
    by (simp add: batOverLava_def newMob_def rndZero_def)
  have lava: "lavaWest \<in> set generateMap \<and> ptype lavaWest = LAVA"
    by (simp add: generateMap_list lavaWest_def addRect_def)
  have hit: "rectIntersect (entityPhysics batOverLava) lavaWest"
    by (simp add: lavaWest_def addRect_def batOverLava_def newMob_def rndZero_def
        initPlayer_def entityPhysics_def Let_def rectIntersect_def GRAVITY_def FRICTION_def)
  have upd: "hp (snd (updateEntity generateMap (initPlayer, batOverLava))) = 30 \<and>
      \<not> isDead (snd (updateEntity generateMap (initPlayer, batOverLava)))"
    using bat updateEntity_hp [of batOverLava generateMap initPlayer]
    by (simp add: pass entityPhysics_keeps)
  show ?thesis using pass bat lava hit upd by simp
qed

section \<open>The state components each section of the frame leaves alone\<close>

lemma tick_keeps:
  "extractionActive (tick s) = extractionActive s \<and>
   extractionZone (tick s) = extractionZone s \<and>
   gameOver (tick s) = gameOver s \<and>
   readingTimer (tick s) = readingTimer s \<and>
   interactionTarget (tick s) = interactionTarget s \<and>
   extractionFrameCount (tick s) = extractionFrameCount s \<and>
   isReading (tick s) = isReading s \<and>
   isLootMenuOpen (tick s) = isLootMenuOpen s \<and>
   player (tick s) = player s \<and>
   entities (tick s) = entities s \<and>
   platforms (tick s) = platforms s \<and>
   inventory (tick s) = inventory s \<and>
   potion (tick s) = potion s \<and>
   kills (tick s) = kills s \<and>
   keys (tick s) = keys s \<and>
   lootModal (tick s) = lootModal s \<and>
   gameOverCalls (tick s) = gameOverCalls s"
  by (simp add: tick_def)

lemma spawnMob_keeps:
  "time (spawnMob rnd s) = time s \<and>
   extractionActive (spawnMob rnd s) = extractionActive s \<and>
   extractionZone (spawnMob rnd s) = extractionZone s \<and>
   gameOver (spawnMob rnd s) = gameOver s \<and>
   readingTimer (spawnMob rnd s) = readingTimer s \<and>
   interactionTarget (spawnMob rnd s) = interactionTarget s \<and>
   extractionFrameCount (spawnMob rnd s) = extractionFrameCount s \<and>
   isReading (spawnMob rnd s) = isReading s \<and>
   isLootMenuOpen (spawnMob rnd s) = isLootMenuOpen s \<and>
   player (spawnMob rnd s) = player s \<and>
   platforms (spawnMob rnd s) = platforms s \<and>
   inventory (spawnMob rnd s) = inventory s \<and>
   potion (spawnMob rnd s) = potion s \<and>
   kills (spawnMob rnd s) = kills s \<and>
   keys (spawnMob rnd s) = keys s \<and>
   lootModal (spawnMob rnd s) = lootModal s \<and>
   gameOverCalls (spawnMob rnd s) = gameOverCalls s"
  by (simp add: spawnMob_def)

lemma spawnRogue_keeps:
  "time (spawnRogue s) = time s \<and>
   extractionActive (spawnRogue s) = extractionActive s \<and>
   extractionZone (spawnRogue s) = extractionZone s \<and>
   gameOver (spawnRogue s) = gameOver s \<and>
   readingTimer (spawnRogue s) = readingTimer s \<and>
   interactionTarget (spawnRogue s) = interactionTarget s \<and>
   extractionFrameCount (spawnRogue s) = extractionFrameCount s \<and>
   isReading (spawnRogue s) = isReading s \<and>
   isLootMenuOpen (spawnRogue s) = isLootMenuOpen s \<and>
   player (spawnRogue s) = player s \<and>
   platforms (spawnRogue s) = platforms s \<and>
   inventory (spawnRogue s) = inventory s \<and>
   potion (spawnRogue s) = potion s \<and>
   kills (spawnRogue s) = kills s \<and>
   keys (spawnRogue s) = keys s \<and>
   lootModal (spawnRogue s) = lootModal s \<and>
   gameOverCalls (spawnRogue s) = gameOverCalls s"
  by (simp add: spawnRogue_def)

lemma usePotion_keeps:
  "time (usePotion s) = time s \<and>
   extractionActive (usePotion s) = extractionActive s \<and>
   extractionZone (usePotion s) = extractionZone s \<and>
   gameOver (usePotion s) = gameOver s \<and>
   readingTimer (usePotion s) = readingTimer s \<and>
   interactionTarget (usePotion s) = interactionTarget s \<and>
   extractionFrameCount (usePotion s) = extractionFrameCount s \<and>
   isReading (usePotion s) = isReading s \<and>
   isLootMenuOpen (usePotion s) = isLootMenuOpen s \<and>
   entities (usePotion s) = entities s \<and>
   platforms (usePotion s) = platforms s \<and>
   inventory (usePotion s) = inventory s \<and>
   kills (usePotion s) = kills s \<and>
   lootModal (usePotion s) = lootModal s \<and>
   gameOverCalls (usePotion s) = gameOverCalls s"
  by (simp add: usePotion_def Let_def)

lemma searchInteraction_keeps:
  "time (searchInteraction d s) = time s \<and>
   extractionActive (searchInteraction d s) = extractionActive s \<and>
   extractionZone (searchInteraction d s) = extractionZone s \<and>
   gameOver (searchInteraction d s) = gameOver s \<and>
   extractionFrameCount (searchInteraction d s) = extractionFrameCount s \<and>
   isLootMenuOpen (searchInteraction d s) = isLootMenuOpen s \<and>
   player (searchInteraction d s) = player s \<and>
   entities (searchInteraction d s) = entities s \<and>
   platforms (searchInteraction d s) = platforms s \<and>
   inventory (searchInteraction d s) = inventory s \<and>
   potion (searchInteraction d s) = potion s \<and>
   kills (searchInteraction d s) = kills s \<and>
   keys (searchInteraction d s) = keys s \<and>
   lootModal (searchInteraction d s) = lootModal s \<and>
   gameOverCalls (searchInteraction d s) = gameOverCalls s"
  by (simp add: searchInteraction_def Let_def)

lemma playerInput_keeps:
  "time (playerInput s) = time s \<and>
   extractionActive (playerInput s) = extractionActive s \<and>
   extractionZone (playerInput s) = extractionZone s \<and>
   gameOver (playerInput s) = gameOver s \<and>
   extractionFrameCount (playerInput s) = extractionFrameCount s \<and>
   isLootMenuOpen (playerInput s) = isLootMenuOpen s \<and>
   entities (playerInput s) = entities s \<and>
   platforms (playerInput s) = platforms s \<and>
   inventory (playerInput s) = inventory s \<and>
   kills (playerInput s) = kills s \<and>
   lootModal (playerInput s) = lootModal s \<and>
   gameOverCalls (playerInput s) = gameOverCalls s"
  by (simp add: playerInput_def Let_def searchInteraction_keeps usePotion_keeps)

lemma playerMotion_keeps:
  "time (playerMotion s) = time s \<and>
   extractionActive (playerMotion s) = extractionActive s \<and>
   extractionZone (playerMotion s) = extractionZone s \<and>
   gameOver (playerMotion s) = gameOver s \<and>
   readingTimer (playerMotion s) = readingTimer s \<and>
   interactionTarget (playerMotion s) = interactionTarget s \<and>
   extractionFrameCount (playerMotion s) = extractionFrameCount s \<and>
   isReading (playerMotion s) = isReading s \<and>
   isLootMenuOpen (playerMotion s) = isLootMenuOpen s \<and>
   entities (playerMotion s) = entities s \<and>
   platforms (playerMotion s) = platforms s \<and>
   inventory (playerMotion s) = inventory s \<and>
   potion (playerMotion s) = potion s \<and>
   kills (playerMotion s) = kills s \<and>
   keys (playerMotion s) = keys s \<and>
   lootModal (playerMotion s) = lootModal s \<and>
   gameOverCalls (playerMotion s) = gameOverCalls s"
  by (simp add: playerMotion_def)

lemma readingLogic_keeps:
  "time (readingLogic rnd s) = time s \<and>
   extractionActive (readingLogic rnd s) = extractionActive s \<and>
   extractionZone (readingLogic rnd s) = extractionZone s \<and>
   gameOver (readingLogic rnd s) = gameOver s \<and>
   interactionTarget (readingLogic rnd s) = interactionTarget s \<and>
   extractionFrameCount (readingLogic rnd s) = extractionFrameCount s \<and>
   player (readingLogic rnd s) = player s \<and>
   platforms (readingLogic rnd s) = platforms s \<and>
   inventory (readingLogic rnd s) = inventory s \<and>
   kills (readingLogic rnd s) = kills s \<and>
   keys (readingLogic rnd s) = keys s \<and>
   gameOverCalls (readingLogic rnd s) = gameOverCalls s"
  by (simp add: readingLogic_def Let_def split: option.splits)

lemma basicAttack_keeps:
  "time (basicAttack s) = time s \<and>
   extractionActive (basicAttack s) = extractionActive s \<and>
   extractionZone (basicAttack s) = extractionZone s \<and>
   gameOver (basicAttack s) = gameOver s \<and>
   readingTimer (basicAttack s) = readingTimer s \<and>
   interactionTarget (basicAttack s) = interactionTarget s \<and>
   extractionFrameCount (basicAttack s) = extractionFrameCount s \<and>
   isReading (basicAttack s) = isReading s \<and>
   isLootMenuOpen (basicAttack s) = isLootMenuOpen s \<and>
   platforms (basicAttack s) = platforms s \<and>
   inventory (basicAttack s) = inventory s \<and>
   potion (basicAttack s) = potion s \<and>
   keys (basicAttack s) = keys s \<and>
   lootModal (basicAttack s) = lootModal s \<and>
   gameOverCalls (basicAttack s) = gameOverCalls s"
  by (simp add: basicAttack_def Let_def)

lemma skill_keeps:
  "time (skill heroType s) = time s \<and>
   extractionActive (skill heroType s) = extractionActive s \<and>
   extractionZone (skill heroType s) = extractionZone s \<and>
   gameOver (skill heroType s) = gameOver s \<and>
   readingTimer (skill heroType s) = readingTimer s \<and>
   interactionTarget (skill heroType s) = interactionTarget s \<and>
   extractionFrameCount (skill heroType s) = extractionFrameCount s \<and>
   isReading (skill heroType s) = isReading s \<and>
   isLootMenuOpen (skill heroType s) = isLootMenuOpen s \<and>
   platforms (skill heroType s) = platforms s \<and>
   inventory (skill heroType s) = inventory s \<and>
   potion (skill heroType s) = potion s \<and>
   keys (skill heroType s) = keys s \<and>
   lootModal (skill heroType s) = lootModal s \<and>
   gameOverCalls (skill heroType s) = gameOverCalls s"
  by (simp add: skill_def Let_def)

lemma combat_keeps:
  "time (combat heroType s) = time s \<and>
   extractionActive (combat heroType s) = extractionActive s \<and>
   extractionZone (combat heroType s) = extractionZone s \<and>
   gameOver (combat heroType s) = gameOver s \<and>
   readingTimer (combat heroType s) = readingTimer s \<and>
   interactionTarget (combat heroType s) = interactionTarget s \<and>
   extractionFrameCount (combat heroType s) = extractionFrameCount s \<and>
   isReading (combat heroType s) = isReading s \<and>
   isLootMenuOpen (combat heroType s) = isLootMenuOpen s \<and>
   platforms (combat heroType s) = platforms s \<and>
   inventory (combat heroType s) = inventory s \<and>
   potion (combat heroType s) = potion s \<and>
   keys (combat heroType s) = keys s \<and>
   lootModal (combat heroType s) = lootModal s \<and>
   gameOverCalls (combat heroType s) = gameOverCalls s"
  by (simp add: combat_def skill_keeps basicAttack_keeps)

lemma entityUpdate_keeps:
  "time (entityUpdate s) = time s \<and>
   extractionActive (entityUpdate s) = extractionActive s \<and>
   extractionZone (entityUpdate s) = extractionZone s \<and>
   gameOver (entityUpdate s) = gameOver s \<and>
   readingTimer (entityUpdate s) = readingTimer s \<and>
   interactionTarget (entityUpdate s) = interactionTarget s \<and>
   extractionFrameCount (entityUpdate s) = extractionFrameCount s \<and>
   isReading (entityUpdate s) = isReading s \<and>
   isLootMenuOpen (entityUpdate s) = isLootMenuOpen s \<and>
   platforms (entityUpdate s) = platforms s \<and>
   inventory (entityUpdate s) = inventory s \<and>
   potion (entityUpdate s) = potion s \<and>
   kills (entityUpdate s) = kills s \<and>
   keys (entityUpdate s) = keys s \<and>
   lootModal (entityUpdate s) = lootModal s \<and>
   gameOverCalls (entityUpdate s) = gameOverCalls s"
  by (simp add: entityUpdate_def Let_def)

lemma gameEnd_keeps:
  "time (gameEnd s) = time s \<and>
   extractionActive (gameEnd s) = extractionActive s \<and>
   extractionZone (gameEnd s) = extractionZone s \<and>
   readingTimer (gameEnd s) = readingTimer s \<and>
   interactionTarget (gameEnd s) = interactionTarget s \<and>
   extractionFrameCount (gameEnd s) = extractionFrameCount s \<and>
   isReading (gameEnd s) = isReading s \<and>
   isLootMenuOpen (gameEnd s) = isLootMenuOpen s \<and>
   player (gameEnd s) = player s \<and>
   entities (gameEnd s) = entities s \<and>
   platforms (gameEnd s) = platforms s \<and>
   inventory (gameEnd s) = inventory s \<and>
   potion (gameEnd s) = potion s \<and>
   kills (gameEnd s) = kills s \<and>
   keys (gameEnd s) = keys s \<and>
   lootModal (gameEnd s) = lootModal s"
  by (simp add: gameEnd_def)

lemma extractionDwell_keeps:
  "time (extractionDwell s) = time s \<and>
   extractionActive (extractionDwell s) = extractionActive s \<and>
   extractionZone (extractionDwell s) = extractionZone s \<and>
   readingTimer (extractionDwell s) = readingTimer s \<and>
   interactionTarget (extractionDwell s) = interactionTarget s \<and>
   isReading (extractionDwell s) = isReading s \<and>
   isLootMenuOpen (extractionDwell s) = isLootMenuOpen s \<and>
   player (extractionDwell s) = player s \<and>
   entities (extractionDwell s) = entities s \<and>
   platforms (extractionDwell s) = platforms s \<and>
   inventory (extractionDwell s) = inventory s \<and>
   potion (extractionDwell s) = potion s \<and>
   kills (extractionDwell s) = kills s \<and>
   keys (extractionDwell s) = keys s \<and>
   lootModal (extractionDwell s) = lootModal s"
  by (simp add: extractionDwell_def Let_def split: option.splits)

lemma afterInput_keeps:
  "extractionActive (afterInput rnd s) = extractionActive s \<and>
   extractionZone (afterInput rnd s) = extractionZone s \<and>
   gameOver (afterInput rnd s) = gameOver s \<and>
   extractionFrameCount (afterInput rnd s) = extractionFrameCount s \<and>
   isLootMenuOpen (afterInput rnd s) = isLootMenuOpen s \<and>
   platforms (afterInput rnd s) = platforms s \<and>
   inventory (afterInput rnd s) = inventory s \<and>
   kills (afterInput rnd s) = kills s \<and>
   lootModal (afterInput rnd s) = lootModal s \<and>
   gameOverCalls (afterInput rnd s) = gameOverCalls s"
  by (simp add: afterInput_def playerInput_keeps spawnRogue_keeps spawnMob_keeps tick_keeps tick_def)

lemma afterReading_keeps:
  "extractionActive (afterReading rnd s) = extractionActive s \<and>
   extractionZone (afterReading rnd s) = extractionZone s \<and>
   gameOver (afterReading rnd s) = gameOver s \<and>
   extractionFrameCount (afterReading rnd s) = extractionFrameCount s \<and>
   platforms (afterReading rnd s) = platforms s \<and>
   inventory (afterReading rnd s) = inventory s \<and>
   kills (afterReading rnd s) = kills s \<and>
   gameOverCalls (afterReading rnd s) = gameOverCalls s"
  by (simp add: afterReading_def readingLogic_keeps playerMotion_keeps afterInput_keeps)

lemma afterCombat_keeps:
  "extractionActive (afterCombat heroType rnd s) = extractionActive s \<and>
   extractionZone (afterCombat heroType rnd s) = extractionZone s \<and>
   gameOver (afterCombat heroType rnd s) = gameOver s \<and>
   extractionFrameCount (afterCombat heroType rnd s) = extractionFrameCount s \<and>
   platforms (afterCombat heroType rnd s) = platforms s \<and>
   inventory (afterCombat heroType rnd s) = inventory s \<and>
   gameOverCalls (afterCombat heroType rnd s) = gameOverCalls s"
  by (simp add: afterCombat_def Let_def combat_keeps afterReading_keeps)

lemma afterGameEnd_keeps:
  "extractionActive (afterGameEnd heroType rnd s) = extractionActive s \<and>
   extractionZone (afterGameEnd heroType rnd s) = extractionZone s \<and>
   extractionFrameCount (afterGameEnd heroType rnd s) = extractionFrameCount s \<and>
   platforms (afterGameEnd heroType rnd s) = platforms s \<and>
   inventory (afterGameEnd heroType rnd s) = inventory s"
  by (simp add: afterGameEnd_def gameEnd_keeps entityUpdate_keeps afterCombat_keeps)

section \<open>The frame as a composition\<close>

lemma openExtraction_keeps:
  "openExtraction rnd s = Inr s1 \<Longrightarrow>
   time s1 = time s \<and> gameOver s1 = gameOver s \<and> readingTimer s1 = readingTimer s \<and>
   interactionTarget s1 = interactionTarget s \<and>
   extractionFrameCount s1 = extractionFrameCount s \<and> isReading s1 = isReading s \<and>
   isLootMenuOpen s1 = isLootMenuOpen s \<and> player s1 = player s \<and>
   entities s1 = entities s \<and> platforms s1 = platforms s \<and> inventory s1 = inventory s \<and>
   potion s1 = potion s \<and> kills s1 = kills s \<and> keys s1 = keys s \<and>
   lootModal s1 = lootModal s \<and> gameOverCalls s1 = gameOverCalls s"
  by (auto simp: openExtraction_def Let_def split: if_splits)

lemma loop_frame:
  assumes "loop heroType rnd s = Inr s'" and "\<not> gameOver s"
  obtains s1 where "openExtraction rnd (afterGameEnd heroType rnd s) = Inr s1"
    and "s' = extractionDwell s1"
  using assms by (auto simp: loop_def split: sum.splits)

lemmas frame_defs = loop_def afterGameEnd_def afterCombat_def afterReading_def afterInput_def
  tick_def spawnMob_def spawnRogue_def playerInput_def movePlayer_def jumpPlayer_def isJumpPressed_def
  usePotion_def searchInteraction_def playerMotion_def playerPhysics_def collisionResolution_def
  collidePlayer_def readingLogic_def combat_def basicAttack_def skill_def skillOrZero_def playerCooldowns_def
  entityUpdate_def gameEnd_def openExtraction_def extractionDwell_def rectIntersect_def
  GRAVITY_def FRICTION_def JUMP_FORCE_def Let_def rogueCount_def inventoryTotal_def

section \<open>Extraction dwell\<close>

definition inZone :: "GameState \<Rightarrow> bool" where
  "inZone s =
     (case extractionZone s of
        Some zone \<Rightarrow> extractionActive s \<and> rectIntersect (player s) zone
      | None \<Rightarrow> False)"

lemma extractionDwell_count:
  "extractionFrameCount (extractionDwell s) =
     (if inZone (extractionDwell s) then extractionFrameCount s + 1
      else if extractionActive s \<and> extractionZone s \<noteq> None then 0
      else extractionFrameCount s)"
  by (simp add: extractionDwell_def inZone_def Let_def split: option.splits)

lemma extractionDwell_calls:
  "gameOverCalls (extractionDwell s) =
     gameOverCalls s @
       (if inZone (extractionDwell s) \<and> extractionFrameCount (extractionDwell s) > 180
        then [(True, inventoryTotal (inventory s), kills s)] else [])"
  by (simp add: extractionDwell_def inZone_def Let_def split: option.splits)

lemma extractionDwell_over:
  "gameOver (extractionDwell s) =
     (gameOver s \<or> inZone (extractionDwell s) \<and> extractionFrameCount (extractionDwell s) > 180)"
  by (simp add: extractionDwell_def inZone_def Let_def split: option.splits)

lemma gameEnd_calls:
  "gameOverCalls (gameEnd s) =
     gameOverCalls s @ (if hp (player s) \<le> 0 then [(False, 0, kills s)] else [])"
  by (simp add: gameEnd_def)

text \<open>
  C4. In a frame that starts with the game not over, with the extraction active and a
  zone present at the end of the frame: if the player intersects the zone the dwell
  counter is the previous one plus 1, otherwise it is exactly 0 (without an active zone
  it is unchanged). The frame invokes \<open>onGameOver\<close> with success exactly when the
  player is in the active zone and the counter exceeds 180, reporting the sum of the
  inventory's item values and the kill counter; the only other invocation a frame can
  add is the failure report of the game-end check before it.
\<close>

theorem extraction_dwell_counter:
  assumes "loop heroType rnd s = Inr s'" and "\<not> gameOver s"
  shows "extractionFrameCount s' =
           (if inZone s' then extractionFrameCount s + 1
            else if extractionActive s' \<and> extractionZone s' \<noteq> None then 0
            else extractionFrameCount s) \<and>
         (\<exists>deaths. (deaths = [] \<or> deaths = [(False, 0, kills s')]) \<and>
            gameOverCalls s' = gameOverCalls s @ deaths @
              (if inZone s' \<and> extractionFrameCount s' > 180
               then [(True, inventoryTotal (inventory s'), kills s')] else [])) \<and>
         (inZone s' \<and> extractionFrameCount s' > 180 \<longrightarrow> gameOver s') \<and>
         inventory s' = inventory s"
proof -
  from assms obtain s1 where open1: "openExtraction rnd (afterGameEnd heroType rnd s) = Inr s1"
    and s': "s' = extractionDwell s1" by (rule loop_frame)
  note k1 = openExtraction_keeps [OF open1]
  have cnt: "extractionFrameCount s1 = extractionFrameCount s"
    using k1 by (simp add: afterGameEnd_keeps)
  have inv: "inventory s1 = inventory s"
    using k1 by (simp add: afterGameEnd_keeps)
  have act: "extractionActive s' = extractionActive s1" "extractionZone s' = extractionZone s1"
    "kills s' = kills s1" "inventory s' = inventory s1"
    by (simp_all add: s' extractionDwell_keeps)
  have calls1: "gameOverCalls s1 = gameOverCalls s @
      (if hp (player (entityUpdate (afterCombat heroType rnd s))) \<le> 0
       then [(False, 0, kills s1)] else [])"
    using k1 by (simp add: afterGameEnd_def gameEnd_calls gameEnd_keeps entityUpdate_keeps afterCombat_keeps)
  have c1: "extractionFrameCount s' =
           (if inZone s' then extractionFrameCount s + 1
            else if extractionActive s' \<and> extractionZone s' \<noteq> None then 0
            else extractionFrameCount s)"
    unfolding s' using extractionDwell_count [of s1] cnt by (auto simp: extractionDwell_keeps)
  have c2: "\<exists>deaths. (deaths = [] \<or> deaths = [(False, 0, kills s')]) \<and>
            gameOverCalls s' = gameOverCalls s @ deaths @
              (if inZone s' \<and> extractionFrameCount s' > 180
               then [(True, inventoryTotal (inventory s'), kills s')] else [])"
  proof (intro exI conjI)
    let ?d = "if hp (player (entityUpdate (afterCombat heroType rnd s))) \<le> 0
       then [(False, 0, kills s')] else []"
    show "?d = [] \<or> ?d = [(False, 0, kills s')]" by simp
    show "gameOverCalls s' = gameOverCalls s @ ?d @
              (if inZone s' \<and> extractionFrameCount s' > 180
               then [(True, inventoryTotal (inventory s'), kills s')] else [])"
      unfolding s' using extractionDwell_calls [of s1] calls1 by (simp add: extractionDwell_keeps)
  qed
  have c3: "inZone s' \<and> extractionFrameCount s' > 180 \<longrightarrow> gameOver s'"
    unfolding s' using extractionDwell_over [of s1] by simp
  have c4: "inventory s' = inventory s" using act inv by simp
  show ?thesis using c1 c2 c3 c4 by blast
qed


definition lootWorth :: "real \<Rightarrow> Item" where
  "lootWorth v = \<lparr>name = ''EPIC Gem'', rarity = EPIC, itemValue = v, color = ''#9b59b6''\<rparr>"

definition startZone :: Rect where
  "startZone = \<lparr>x = - 40, y = - 100, width = 80, height = 100\<rparr>"

definition dwellState :: "nat \<Rightarrow> real \<Rightarrow> GameState" where
  "dwellState n px =
     (initState [])\<lparr>time := 2000, extractionActive := True, extractionZone := Some startZone,
                    extractionFrameCount := n,
                    player := initPlayer\<lparr>x := px, y := - 48\<rparr>,
                    inventory := [lootWorth 5, lootWorth 40, lootWorth 300], kills := 2\<rparr>"

definition dwellSuccess :: GameState where
  "dwellSuccess =
     (dwellState 180 0)\<lparr>time := 2001, extractionFrameCount := 181, gameOver := True,
                         gameOverCalls := [(True, 345, 2)]\<rparr>"

definition dwellLeft :: GameState where
  "dwellLeft =
     (dwellState 179 500)\<lparr>time := 2001, extractionFrameCount := 0,
                           player := initPlayer\<lparr>x := 500, y := - 47.5, vy := 0.5\<rparr>\<rparr>"

theorem extraction_dwell_counter_witness:
  "\<not> gameOver (dwellState 180 0) \<and> extractionFrameCount (dwellState 180 0) = 180 \<and>
   loop SWORDSMAN rndZero (dwellState 180 0) = Inr dwellSuccess \<and>
   inZone dwellSuccess \<and> extractionFrameCount dwellSuccess = 181 \<and> gameOver dwellSuccess \<and>
   gameOverCalls dwellSuccess = [(True, 345, 2)] \<and>
   extractionFrameCount (dwellState 179 500) = 179 \<and>
   loop SWORDSMAN rndZero (dwellState 179 500) = Inr dwellLeft \<and>
   \<not> inZone dwellLeft \<and> extractionFrameCount dwellLeft = 0 \<and> gameOverCalls dwellLeft = []"
proof -
  have e1: "loop SWORDSMAN rndZero (dwellState 180 0) = Inr dwellSuccess"
    by (simp add: frame_defs dwellSuccess_def dwellState_def initState_def initPlayer_def
        startZone_def generateMap_list addRect_def lootWorth_def)
  have e2: "loop SWORDSMAN rndZero (dwellState 179 500) = Inr dwellLeft"
    by (simp add: frame_defs dwellLeft_def dwellState_def initState_def initPlayer_def
        startZone_def generateMap_list addRect_def lootWorth_def)
  have n1: "\<not> gameOver (dwellState 180 0)" and n2: "\<not> gameOver (dwellState 179 500)"
    by (simp_all add: dwellState_def initState_def)
  have z1: "inZone dwellSuccess" and z2: "\<not> inZone dwellLeft"
    by (simp_all add: inZone_def dwellSuccess_def dwellLeft_def dwellState_def startZone_def
        initPlayer_def rectIntersect_def)
  show ?thesis
    using extraction_dwell_counter [OF e1 n1] extraction_dwell_counter [OF e2 n2] e1 e2 n1 z1 z2
    by (simp add: dwellSuccess_def dwellLeft_def dwellState_def initState_def)
qed

section \<open>Evaluating the entity loop on concrete states\<close>

lemma sqrt_less_iff: "0 \<le> a \<Longrightarrow> 0 < b \<Longrightarrow> (sqrt a < b) = (a < b * b)"
proof -
  assume a: "0 \<le> a" and b: "0 < b"
  have "sqrt (b * b) = b" using b by simp
  then have "(sqrt a < b) = (sqrt a < sqrt (b * b))" by simp
  also have "\<dots> = (a < b * b)" by (rule real_sqrt_less_iff)
  finally show ?thesis .
qed

lemmas entity_defs = updateEntity_def entityPhysics_def collideEntity_def
  entityTimers_def jumpOrZero_def rogueAI_def rogueSteer_def rogueJump_def rogueStrike_def
  slimeAI_def batAI_def entityAI_def entityFinish_def getDistance_def sqrt_less_iff
  searchable_def isOpenedTruthy_def

section \<open>The session-end callback\<close>

lemma loop_after_gameOver: "gameOver s \<Longrightarrow> loop heroType rnd s = Inr s"
  by (simp add: loop_def)

definition rogueBeside :: Entity where
  "rogueBeside = (newRogue initPlayer)\<lparr>x := 40, y := - 48\<rparr>"

definition lastStand :: GameState where
  "lastStand =
     (dwellState 180 0)\<lparr>player := initPlayer\<lparr>x := 0, y := - 48, hp := 6\<rparr>,
                         entities := [rogueBeside]\<rparr>"

text \<open>
  C1 fails on the code. The game-end check of a frame does not end the frame, so the
  extraction check still runs after it. In the state \<open>lastStand\<close> the player stands
  in the open portal with 180 dwell frames and 6 health, and a rogue agent beside the
  player is ready to strike: the one frame reports the death and then the successful
  extraction, two invocations of \<open>onGameOver\<close>.
\<close>

theorem onGameOver_twice_in_one_frame:
  "\<not> gameOver lastStand \<and> gameOverCalls lastStand = [] \<and> hp (player lastStand) = 6 \<and>
   (case loop SWORDSMAN rndZero lastStand of
      Inr s' \<Rightarrow> gameOverCalls s' = [(False, 0, 2), (True, 345, 2)]
    | Inl err \<Rightarrow> False)"
  by (simp add: frame_defs entity_defs lastStand_def rogueBeside_def newRogue_def
      dwellState_def initState_def initPlayer_def startZone_def generateMap_list addRect_def
      lootWorth_def rndZero_def)

section \<open>Kill bookkeeping\<close>

definition woundedRogue :: Entity where
  "woundedRogue = (newRogue initPlayer)\<lparr>x := 40, y := - 48, hp := 20\<rparr>"

definition twoHits :: GameState where
  "twoHits =
     (initState [])\<lparr>time := 100, player := initPlayer\<lparr>x := 0, y := - 48\<rparr>,
                    entities := [woundedRogue],
                    keys := (\<lambda>k. k = ''KeyJ'' \<or> k = ''KeyK'')\<rparr>"

text \<open>
  C2 fails on the code. The kill check after a damage application tests \<open>hp \<le> 0\<close>,
  not that the health crossed zero, and \<open>isDead\<close> is only set later, in the entity
  loop. With the attack key and the skill key both down in one frame, the basic attack
  takes a rogue agent from 20 health to 0 and counts a kill, and the whirlwind of the
  same frame hits the same rogue again and counts a second kill.
\<close>

theorem kill_counted_twice_in_one_frame:
  "kills twoHits = 0 \<and> map type (entities twoHits) = [ROGUE_AGENT] \<and>
   map hp (entities twoHits) = [20] \<and> map isDead (entities twoHits) = [False] \<and>
   (case loop SWORDSMAN rndZero twoHits of
      Inr s' \<Rightarrow> kills s' = 2 \<and> map type (entities s') = [ROGUE_AGENT] \<and>
                 map hp (entities s') = [- 40] \<and> map isDead (entities s') = [True]
    | Inl err \<Rightarrow> False)"
  by (simp add: frame_defs entity_defs twoHits_def woundedRogue_def newRogue_def
      initState_def initPlayer_def generateMap_list addRect_def rndZero_def
      hitBox_def attackHit_def whirlwindHit_def meteorHit_def isHostile_def countKill_def)

section \<open>What the later sections of a frame leave of the player\<close>

lemma collidePlayer_keeps:
  "x (fst (collidePlayer plat a)) = x (fst a) \<and> vx (fst (collidePlayer plat a)) = vx (fst a) \<and>
   width (fst (collidePlayer plat a)) = width (fst a) \<and>
   height (fst (collidePlayer plat a)) = height (fst a) \<and>
   isJumpKeyHeld (fst (collidePlayer plat a)) = isJumpKeyHeld (fst a) \<and>
   type (fst (collidePlayer plat a)) = type (fst a)"
  by (simp add: collidePlayer_def Let_def)

lemma collidePlayer_pass_keeps:
  "x (fst (fold collidePlayer ps a)) = x (fst a) \<and>
   vx (fst (fold collidePlayer ps a)) = vx (fst a) \<and>
   width (fst (fold collidePlayer ps a)) = width (fst a) \<and>
   height (fst (fold collidePlayer ps a)) = height (fst a) \<and>
   isJumpKeyHeld (fst (fold collidePlayer ps a)) = isJumpKeyHeld (fst a) \<and>
   type (fst (fold collidePlayer ps a)) = type (fst a)"
proof (induction ps arbitrary: a)
  case Nil
  then show ?case by simp
next
  case (Cons plat ps)
  show ?case using Cons.IH [of "collidePlayer plat a"] by (simp add: collidePlayer_keeps)
qed

lemma playerCooldowns_keeps:
  "x (playerCooldowns p) = x p \<and> y (playerCooldowns p) = y p \<and>
   vx (playerCooldowns p) = vx p \<and> vy (playerCooldowns p) = vy p \<and>
   width (playerCooldowns p) = width p \<and> height (playerCooldowns p) = height p \<and>
   hp (playerCooldowns p) = hp p \<and> jumpCount (playerCooldowns p) = jumpCount p \<and>
   isJumpKeyHeld (playerCooldowns p) = isJumpKeyHeld p"
  by (simp add: playerCooldowns_def Let_def split: option.splits)

lemma basicAttack_player:
  "x (player (basicAttack s)) = x (player s) \<and> y (player (basicAttack s)) = y (player s) \<and>
   vx (player (basicAttack s)) = vx (player s) \<and> vy (player (basicAttack s)) = vy (player s) \<and>
   width (player (basicAttack s)) = width (player s) \<and>
   height (player (basicAttack s)) = height (player s) \<and>
   hp (player (basicAttack s)) = hp (player s) \<and>
   jumpCount (player (basicAttack s)) = jumpCount (player s) \<and>
   isJumpKeyHeld (player (basicAttack s)) = isJumpKeyHeld (player s)"
  by (simp add: basicAttack_def Let_def)

lemma skill_player:
  "x (player (skill h s)) = x (player s) \<and> y (player (skill h s)) = y (player s) \<and>
   vx (player (skill h s)) = vx (player s) \<and> vy (player (skill h s)) = vy (player s) \<and>
   width (player (skill h s)) = width (player s) \<and>
   height (player (skill h s)) = height (player s) \<and>
   hp (player (skill h s)) = hp (player s) \<and>
   jumpCount (player (skill h s)) = jumpCount (player s) \<and>
   isJumpKeyHeld (player (skill h s)) = isJumpKeyHeld (player s)"
  by (simp add: skill_def Let_def)

lemma combat_player:
  "x (player (combat h s)) = x (player s) \<and> y (player (combat h s)) = y (player s) \<and>
   vx (player (combat h s)) = vx (player s) \<and> vy (player (combat h s)) = vy (player s) \<and>
   width (player (combat h s)) = width (player s) \<and>
   height (player (combat h s)) = height (player s) \<and>
   hp (player (combat h s)) = hp (player s) \<and>
   jumpCount (player (combat h s)) = jumpCount (player s) \<and>
   isJumpKeyHeld (player (combat h s)) = isJumpKeyHeld (player s)"
  by (simp add: combat_def skill_player basicAttack_player)

lemma rogueStrike_player:
  "x (fst (rogueStrike d pe)) = x (fst pe) \<and> y (fst (rogueStrike d pe)) = y (fst pe) \<and>
   vy (fst (rogueStrike d pe)) = vy (fst pe) \<and>
   width (fst (rogueStrike d pe)) = width (fst pe) \<and>
   height (fst (rogueStrike d pe)) = height (fst pe) \<and>
   jumpCount (fst (rogueStrike d pe)) = jumpCount (fst pe) \<and>
   isJumpKeyHeld (fst (rogueStrike d pe)) = isJumpKeyHeld (fst pe)"
  by (simp add: rogueStrike_def Let_def)

lemma slimeAI_player:
  "x (fst (slimeAI d pe)) = x (fst pe) \<and> y (fst (slimeAI d pe)) = y (fst pe) \<and>
   vy (fst (slimeAI d pe)) = vy (fst pe) \<and>
   width (fst (slimeAI d pe)) = width (fst pe) \<and>
   height (fst (slimeAI d pe)) = height (fst pe) \<and>
   jumpCount (fst (slimeAI d pe)) = jumpCount (fst pe) \<and>
   isJumpKeyHeld (fst (slimeAI d pe)) = isJumpKeyHeld (fst pe)"
  by (simp add: slimeAI_def Let_def)

lemma entityAI_player:
  "x (fst (entityAI g pe)) = x (fst pe) \<and> y (fst (entityAI g pe)) = y (fst pe) \<and>
   vy (fst (entityAI g pe)) = vy (fst pe) \<and>
   width (fst (entityAI g pe)) = width (fst pe) \<and>
   height (fst (entityAI g pe)) = height (fst pe) \<and>
   jumpCount (fst (entityAI g pe)) = jumpCount (fst pe) \<and>
   isJumpKeyHeld (fst (entityAI g pe)) = isJumpKeyHeld (fst pe)"
  by (simp add: entityAI_def Let_def rogueAI_def rogueStrike_player slimeAI_player batAI_def)

lemma updateEntity_player:
  "x (fst (updateEntity plats (p, e))) = x p \<and> y (fst (updateEntity plats (p, e))) = y p \<and>
   vy (fst (updateEntity plats (p, e))) = vy p \<and>
   width (fst (updateEntity plats (p, e))) = width p \<and>
   height (fst (updateEntity plats (p, e))) = height p \<and>
   jumpCount (fst (updateEntity plats (p, e))) = jumpCount p \<and>
   isJumpKeyHeld (fst (updateEntity plats (p, e))) = isJumpKeyHeld p"
  by (simp add: updateEntity_def Let_def entityAI_player)

lemma entityLoop_player:
  "x (fst (entityLoop plats p es)) = x p \<and> y (fst (entityLoop plats p es)) = y p \<and>
   vy (fst (entityLoop plats p es)) = vy p \<and>
   width (fst (entityLoop plats p es)) = width p \<and>
   height (fst (entityLoop plats p es)) = height p \<and>
   jumpCount (fst (entityLoop plats p es)) = jumpCount p \<and>
   isJumpKeyHeld (fst (entityLoop plats p es)) = isJumpKeyHeld p"
proof (induction es arbitrary: p)
  case Nil
  then show ?case by simp
next
  case (Cons e es)
  show ?case
    using Cons.IH [of "fst (updateEntity plats (p, e))"]
    by (simp add: Let_def updateEntity_player)
qed

lemma late_frame_player:
  assumes "loop heroType rnd s = Inr s'" and "\<not> gameOver s"
  shows "x (player s') = x (player (afterReading rnd s)) \<and>
         y (player s') = y (player (afterReading rnd s)) \<and>
         vy (player s') = vy (player (afterReading rnd s)) \<and>
         width (player s') = width (player (afterReading rnd s)) \<and>
         height (player s') = height (player (afterReading rnd s)) \<and>
         jumpCount (player s') = jumpCount (player (afterReading rnd s)) \<and>
         isJumpKeyHeld (player s') = isJumpKeyHeld (player (afterReading rnd s))"
proof -
  from assms obtain s1 where open1: "openExtraction rnd (afterGameEnd heroType rnd s) = Inr s1"
    and s': "s' = extractionDwell s1" by (rule loop_frame)
  have "player s' = player (afterGameEnd heroType rnd s)"
    using openExtraction_keeps [OF open1] by (simp add: s' extractionDwell_keeps)
  then show ?thesis
    by (simp add: afterGameEnd_def gameEnd_keeps entityUpdate_def Let_def entityLoop_player
        afterCombat_def playerCooldowns_keeps combat_player)
qed

lemma afterReading_player:
  "player (afterReading rnd s) =
     fst (collisionResolution (platforms s) (playerPhysics (player (afterInput rnd s))))"
  by (simp add: afterReading_def readingLogic_keeps playerMotion_def afterInput_keeps)

section \<open>Order of the integration steps\<close>

lemma updateEntity_x:
  "\<not> isDead e \<Longrightarrow> type e \<noteq> CHEST \<Longrightarrow> x (snd (updateEntity plats (p, e))) = x e + vx e"
  by (simp add: updateEntity_def Let_def entityFinish_keeps entityAI_keeps entityTimers_keeps
      collideEntity_pass_keeps entityPhysics_def)

text \<open>
  The two integration paths of a frame, side by side. For every non-dead, non-chest
  entity of the registry the entity loop applies gravity to the vertical velocity
  (skipped for bats), then integrates the velocity into the position, then damps the
  horizontal velocity, so the horizontal position delta of its update is the
  pre-friction velocity; dead entities and chests are skipped. The player block damps
  the horizontal velocity first, then applies gravity, then integrates, so over a whole
  frame the player's horizontal position delta is the velocity left by the input
  section times the friction coefficient.
\<close>

lemma integration_order:
  "(\<not> isDead e \<and> type e \<noteq> CHEST \<longrightarrow>
      x (snd (updateEntity plats (q, e))) = x e + vx e) \<and>
   (isDead e \<or> type e = CHEST \<longrightarrow> updateEntity plats (q, e) = (q, e)) \<and>
   entityPhysics e =
     e\<lparr>vy := vy e + (if type e \<noteq> MOB_BAT then GRAVITY else 0),
       x := x e + vx e,
       y := y e + (vy e + (if type e \<noteq> MOB_BAT then GRAVITY else 0)),
       vx := vx e * FRICTION\<rparr> \<and>
   playerPhysics p =
     p\<lparr>vx := vx p * FRICTION, vy := vy p + GRAVITY,
       x := x p + vx p * FRICTION, y := y p + (vy p + GRAVITY)\<rparr> \<and>
   (loop heroType rnd s = Inr s' \<and> \<not> gameOver s \<longrightarrow>
      x (player s') =
        x (player (afterInput rnd s)) + vx (player (afterInput rnd s)) * FRICTION)"
proof (intro conjI impI)
  assume "\<not> isDead e \<and> type e \<noteq> CHEST"
  then show "x (snd (updateEntity plats (q, e))) = x e + vx e"
    by (simp add: updateEntity_x)
next
  assume "isDead e \<or> type e = CHEST"
  then show "updateEntity plats (q, e) = (q, e)" by (rule updateEntity_skip)
next
  show "entityPhysics e =
     e\<lparr>vy := vy e + (if type e \<noteq> MOB_BAT then GRAVITY else 0),
       x := x e + vx e,
       y := y e + (vy e + (if type e \<noteq> MOB_BAT then GRAVITY else 0)),
       vx := vx e * FRICTION\<rparr>"
    by (simp add: entityPhysics_def Let_def)
next
  show "playerPhysics p =
     p\<lparr>vx := vx p * FRICTION, vy := vy p + GRAVITY,
       x := x p + vx p * FRICTION, y := y p + (vy p + GRAVITY)\<rparr>"
    by (simp add: playerPhysics_def Let_def)
next
  assume h: "loop heroType rnd s = Inr s' \<and> \<not> gameOver s"
  then have "x (player s') = x (player (afterReading rnd s))"
    using late_frame_player [of heroType rnd s s'] by simp
  then show "x (player s') =
        x (player (afterInput rnd s)) + vx (player (afterInput rnd s)) * FRICTION"
    by (simp add: afterReading_player collisionResolution_def collidePlayer_pass_keeps
        playerPhysics_def Let_def)
qed

definition slidingSlime :: Entity where
  "slidingSlime = (newMob rndZero initPlayer)\<lparr>x := 0, y := - 32, vx := 10\<rparr>"

definition gliding :: GameState where
  "gliding = (initState [])\<lparr>time := 100, player := initPlayer\<lparr>x := 0, y := - 48, vx := 10\<rparr>\<rparr>"

definition glidingNext :: GameState where
  "glidingNext =
     (initState [])\<lparr>time := 101, player := initPlayer\<lparr>x := 8.5, y := - 48, vx := 8.5\<rparr>\<rparr>"

lemma gliding_frame: "loop SWORDSMAN rndZero gliding = Inr glidingNext"
  by (simp add: frame_defs entity_defs gliding_def glidingNext_def initState_def initPlayer_def
      generateMap_list addRect_def rndZero_def)

definition idleChest :: Entity where
  "idleChest = newChest (addRect (- 200) 0 400 40 DIRT)"

lemma integration_order_example:
  "\<not> isDead slidingSlime \<and> type slidingSlime = MOB_SLIME \<and> x slidingSlime = 0 \<and>
   vx slidingSlime = 10 \<and>
   x (snd (updateEntity generateMap (initPlayer, slidingSlime))) = 10 \<and>
   x (entityPhysics slidingSlime) = 10 \<and> vx (entityPhysics slidingSlime) = 8.5 \<and>
   type idleChest = CHEST \<and>
   updateEntity generateMap (initPlayer, idleChest) = (initPlayer, idleChest) \<and>
   loop SWORDSMAN rndZero gliding = Inr glidingNext \<and> \<not> gameOver gliding \<and>
   x (player (afterInput rndZero gliding)) = 0 \<and> vx (player (afterInput rndZero gliding)) = 10 \<and>
   x (player glidingNext) = 8.5"
proof -
  have a: "player (afterInput rndZero gliding) = player gliding"
    by (simp add: frame_defs entity_defs gliding_def initState_def initPlayer_def
      generateMap_list addRect_def rndZero_def)
  have c: "type idleChest = CHEST" by (simp add: idleChest_def newChest_def)
  show ?thesis
    using integration_order [where e = slidingSlime and plats = generateMap and q = initPlayer
        and heroType = SWORDSMAN and rnd = rndZero and s = gliding and s' = glidingNext]
      integration_order [where e = idleChest and plats = generateMap and q = initPlayer]
      gliding_frame a c
    by (simp add: slidingSlime_def newMob_def rndZero_def gliding_def glidingNext_def
        initState_def initPlayer_def FRICTION_def GRAVITY_def)
qed

text \<open>
  C8 fails on the code for the player. The claim gives one order for every physical,
  non-dead, non-chest entity: gravity, then integration, then horizontal friction, so
  that the position delta of a frame is the pre-friction horizontal velocity. The entity
  loop follows it: a slime with horizontal velocity 10 moves by 10 in its update. The
  player block damps before it integrates: with horizontal velocity 10 and no key
  pressed, one frame moves the player by 8.5, the post-friction velocity.
\<close>

theorem player_damps_before_integrating:
  "\<not> gameOver gliding \<and> x (player gliding) = 0 \<and> vx (player gliding) = 10 \<and>
   \<not> keys gliding ''KeyA'' \<and> \<not> keys gliding ''ArrowLeft'' \<and>
   \<not> keys gliding ''KeyD'' \<and> \<not> keys gliding ''ArrowRight'' \<and>
   loop SWORDSMAN rndZero gliding = Inr glidingNext \<and>
   x (player glidingNext) - x (player gliding) = 8.5 \<and>
   x (player glidingNext) - x (player gliding) \<noteq> vx (player gliding) \<and>
   x (playerPhysics (player gliding)) - x (player gliding) = 8.5 \<and>
   vx slidingSlime = 10 \<and>
   x (snd (updateEntity generateMap (player gliding, slidingSlime))) - x slidingSlime = 10 \<and>
   x (entityPhysics slidingSlime) - x slidingSlime = 10"
proof -
  have e: "x (snd (updateEntity generateMap (player gliding, slidingSlime))) =
      x slidingSlime + vx slidingSlime"
    by (rule updateEntity_x) (simp_all add: slidingSlime_def newMob_def rndZero_def)
  have v: "vx slidingSlime = 10"
    by (simp add: slidingSlime_def)
  have ph: "x (entityPhysics slidingSlime) - x slidingSlime = 10"
    by (simp add: entityPhysics_def Let_def slidingSlime_def)
  have pp: "x (playerPhysics (player gliding)) - x (player gliding) = 8.5"
    by (simp add: playerPhysics_def Let_def gliding_def initPlayer_def FRICTION_def)
  show ?thesis
    using gliding_frame e v ph pp
    by (simp add: gliding_def glidingNext_def initState_def initPlayer_def)
qed

section \<open>The registry across a frame\<close>

text \<open>
  \<open>sameKind e e'\<close>: the entity \<open>e'\<close> is \<open>e\<close> some steps later, as far as its kind,
  its opened flag and its death are concerned (a dead entity stays dead).
\<close>

definition sameKind :: "Entity \<Rightarrow> Entity \<Rightarrow> bool" where
  "sameKind e e' = (type e' = type e \<and> isOpened e' = isOpened e \<and> (isDead e \<longrightarrow> isDead e'))"

lemma sameKind_refl: "sameKind e e"
  by (simp add: sameKind_def)

lemma sameKind_trans: "sameKind a b \<Longrightarrow> sameKind b c \<Longrightarrow> sameKind a c"
  by (simp add: sameKind_def)

lemma list_sameKind_refl: "list_all2 sameKind es es"
  by (simp add: list_all2_refl sameKind_refl)

lemma list_sameKind_trans:
  "list_all2 sameKind as bs \<Longrightarrow> list_all2 sameKind bs cs \<Longrightarrow> list_all2 sameKind as cs"
  using list_all2_trans [of sameKind sameKind sameKind as bs cs] sameKind_trans by blast

lemma sameKind_types: "list_all2 sameKind es es' \<Longrightarrow> map type es' = map type es"
  by (induction rule: list_all2_induct) (simp_all add: sameKind_def)


lemma sameKind_rogueCount: "list_all2 sameKind es es' \<Longrightarrow> rogueCount es' \<le> rogueCount es"
  by (induction rule: list_all2_induct) (auto simp: sameKind_def rogueCount_def)

lemma countKill_fst: "fst (countKill e k) = e"
  by (simp add: countKill_def)

lemma attackHit_sameKind: "sameKind e (fst (attackHit p e k))"
  by (simp add: attackHit_def countKill_fst sameKind_def)

lemma whirlwindHit_sameKind: "sameKind e (fst (whirlwindHit p e k))"
  by (simp add: whirlwindHit_def countKill_fst sameKind_def)

lemma meteorHit_sameKind: "sameKind e (fst (meteorHit p e k))"
  by (simp add: meteorHit_def countKill_fst sameKind_def Let_def)

lemma forEachEntity_sameKind:
  "(\<And>e k. sameKind e (fst (f e k))) \<Longrightarrow> list_all2 sameKind es (fst (forEachEntity f es k))"
  by (induction es arbitrary: k) (simp_all add: Let_def)

lemma entityLoop_sameKind: "list_all2 sameKind es (snd (entityLoop plats p es))"
proof (induction es arbitrary: p)
  case Nil
  then show ?case by simp
next
  case (Cons e es)
  have "sameKind e (snd (updateEntity plats (p, e)))"
    by (simp add: sameKind_def updateEntity_keeps)
  then show ?case using Cons.IH by (simp add: Let_def)
qed

lemma basicAttack_sameKind: "list_all2 sameKind (entities s) (entities (basicAttack s))"
  by (simp add: basicAttack_def Let_def forEachEntity_sameKind attackHit_sameKind
      list_sameKind_refl)

lemma skill_sameKind: "list_all2 sameKind (entities s) (entities (skill h s))"
  by (simp add: skill_def Let_def forEachEntity_sameKind whirlwindHit_sameKind
      meteorHit_sameKind list_sameKind_refl)

lemma combat_sameKind: "list_all2 sameKind (entities s) (entities (combat h s))"
  using list_sameKind_trans [OF basicAttack_sameKind [of s] skill_sameKind [of "basicAttack s" h]]
  by (simp add: combat_def list_sameKind_refl)

lemma entityUpdate_sameKind: "list_all2 sameKind (entities s) (entities (entityUpdate s))"
  by (simp add: entityUpdate_def Let_def entityLoop_sameKind)

lemma late_frame_entities:
  assumes "loop heroType rnd s = Inr s'" and "\<not> gameOver s"
  shows "list_all2 sameKind (entities (afterReading rnd s)) (entities s')"
proof -
  from assms obtain s1 where open1: "openExtraction rnd (afterGameEnd heroType rnd s) = Inr s1"
    and s': "s' = extractionDwell s1" by (rule loop_frame)
  have e: "entities s' = entities (entityUpdate (afterCombat heroType rnd s))"
    using openExtraction_keeps [OF open1]
    by (simp add: s' extractionDwell_keeps afterGameEnd_def gameEnd_keeps)
  have c: "entities (afterCombat heroType rnd s) = entities (combat heroType (afterReading rnd s))"
    by (simp add: afterCombat_def Let_def)
  have a: "list_all2 sameKind (entities (afterReading rnd s)) (entities (afterCombat heroType rnd s))"
    using combat_sameKind [of "afterReading rnd s" heroType] by (simp add: c)
  show ?thesis
    using list_sameKind_trans [OF a entityUpdate_sameKind [of "afterCombat heroType rnd s"]]
    by (simp add: e)
qed

section \<open>Spawn caps\<close>

lemma rogueCount_append: "rogueCount (es @ es') = rogueCount es + rogueCount es'"
  by (simp add: rogueCount_def)

lemma openChest_types: "map type (openChest i es) = map type es"
  by (simp add: openChest_def map_update) (metis list_update_id map_update)

lemma openChest_rogueCount: "rogueCount (openChest i es) = rogueCount es"
proof (induction es arbitrary: i)
  case Nil
  then show ?case by (simp add: openChest_def)
next
  case (Cons e es)
  show ?case
  proof (cases i)
    case 0
    then show ?thesis by (simp add: openChest_def rogueCount_def)
  next
    case (Suc j)
    then show ?thesis using Cons.IH [of j] by (simp add: openChest_def rogueCount_def)
  qed
qed

lemma newMob_type: "type (newMob rnd p) = MOB_SLIME \<or> type (newMob rnd p) = MOB_BAT"
  by (simp add: newMob_def)

lemma afterInput_entities:
  "entities (afterInput rnd s) =
     entities s @
     (if Suc (time s) mod 200 = 0 \<and> length (entities s) < 50 then [newMob rnd (player s)] else []) @
     (if Suc (time s) mod 1200 = 0 \<and> rogueCount (entities s) < 5 then [newRogue (player s)] else [])"
  using newMob_type [of rnd "player s"]
  by (auto simp: afterInput_def playerInput_keeps spawnRogue_def spawnMob_def tick_def
      rogueCount_def)

lemma readingLogic_entities:
  "entities (readingLogic rnd s) = entities s \<or>
   (\<exists>i. entities (readingLogic rnd s) = openChest i (entities s))"
  by (auto simp: readingLogic_def Let_def split: option.splits)

lemma afterReading_types: "map type (entities (afterReading rnd s)) = map type (entities (afterInput rnd s))"
  using readingLogic_entities [of rnd "playerMotion (afterInput rnd s)"]
  by (auto simp: afterReading_def playerMotion_keeps openChest_types)

lemma afterReading_rogueCount:
  "rogueCount (entities (afterReading rnd s)) = rogueCount (entities (afterInput rnd s))"
  using readingLogic_entities [of rnd "playerMotion (afterInput rnd s)"]
  by (auto simp: afterReading_def playerMotion_keeps openChest_rogueCount)

lemma frame_types:
  assumes "loop heroType rnd s = Inr s'" and "\<not> gameOver s"
  shows "map type (entities s') = map type (entities s) @
        (if time s' mod 200 = 0 \<and> length (entities s) < 50
         then [type (newMob rnd (player s))] else []) @
        (if time s' mod 1200 = 0 \<and> rogueCount (entities s) < 5 then [ROGUE_AGENT] else [])"
proof -
  from assms obtain s1 where open1: "openExtraction rnd (afterGameEnd heroType rnd s) = Inr s1"
    and s': "s' = extractionDwell s1" by (rule loop_frame)
  have t: "time s' = Suc (time s)"
    using openExtraction_keeps [OF open1]
    by (simp add: s' extractionDwell_keeps afterGameEnd_def gameEnd_keeps entityUpdate_keeps
        afterCombat_def Let_def combat_keeps afterReading_def readingLogic_keeps
        playerMotion_keeps afterInput_def playerInput_keeps spawnRogue_keeps spawnMob_keeps
        tick_def)
  have "map type (entities s') = map type (entities (afterInput rnd s))"
    using sameKind_types [OF late_frame_entities [OF assms]] by (simp add: afterReading_types)
  then show ?thesis
    by (simp add: afterInput_entities t newRogue_def)
qed

lemma frame_rogueCount:
  assumes "loop heroType rnd s = Inr s'" and "\<not> gameOver s"
  shows "rogueCount (entities s') \<le> rogueCount (entities s) +
        (if time s' mod 1200 = 0 \<and> rogueCount (entities s) < 5 then 1 else 0)"
proof -
  from assms obtain s1 where open1: "openExtraction rnd (afterGameEnd heroType rnd s) = Inr s1"
    and s': "s' = extractionDwell s1" by (rule loop_frame)
  have t: "time s' = Suc (time s)"
    using openExtraction_keeps [OF open1]
    by (simp add: s' extractionDwell_keeps afterGameEnd_def gameEnd_keeps entityUpdate_keeps
        afterCombat_def Let_def combat_keeps afterReading_def readingLogic_keeps
        playerMotion_keeps afterInput_def playerInput_keeps spawnRogue_keeps spawnMob_keeps
        tick_def)
  have a: "rogueCount (entities s') \<le> rogueCount (entities (afterInput rnd s))"
    using sameKind_rogueCount [OF late_frame_entities [OF assms]]
    by (simp add: afterReading_rogueCount)
  have b: "rogueCount (entities (afterInput rnd s)) = rogueCount (entities s) +
        (if time s' mod 1200 = 0 \<and> rogueCount (entities s) < 5 then 1 else 0)"
    using newMob_type [of rnd "player s"]
    by (auto simp: afterInput_entities t rogueCount_append) (auto simp: rogueCount_def newRogue_def)
  show ?thesis using a b by simp
qed

lemma spawnChests_types: "\<forall>e \<in> set (spawnChests ps rs). type e = CHEST"
  by (induction ps rs rule: spawnChests.induct) (auto simp: newChest_def)

lemma initState_rogueCount: "rogueCount (entities (initState rs)) = 0"
  using spawnChests_types [of generateMap rs]
  by (auto simp: initState_def rogueCount_def filter_empty_conv)

lemma reachable_rogueCount: "reachable heroType s \<Longrightarrow> rogueCount (entities s) \<le> 5"
proof (induction rule: reachable.induct)
  case (start rs)
  then show ?case by (simp add: initState_rogueCount)
next
  case (frame s rnd s')
  show ?case
  proof (cases "gameOver s")
    case True
    then show ?thesis using frame by (simp add: loop_def)
  next
    case False
    from frame_rogueCount [OF frame(2) False] frame(3) show ?thesis
      by (simp split: if_splits)
  qed
next
  case (keyDown s code)
  then show ?case by (simp add: handleKeyDown_def)
next
  case (keyUp s code)
  then show ?case by (simp add: handleKeyUp_def)
next
  case (pickup s)
  then show ?case by (auto simp: handlePickup_def Let_def split: option.splits)
next
  case (discard s)
  then show ?case by (simp add: handleDiscard_def)
qed


lemma frame_time:
  assumes "loop heroType rnd s = Inr s'" and "\<not> gameOver s"
  shows "time s' = Suc (time s)"
proof -
  from assms obtain s1 where open1: "openExtraction rnd (afterGameEnd heroType rnd s) = Inr s1"
    and s': "s' = extractionDwell s1" by (rule loop_frame)
  show ?thesis
    using openExtraction_keeps [OF open1]
    by (simp add: s' extractionDwell_keeps afterGameEnd_def gameEnd_keeps entityUpdate_keeps
        afterCombat_def Let_def combat_keeps afterReading_def readingLogic_keeps
        playerMotion_keeps afterInput_def playerInput_keeps spawnRogue_keeps spawnMob_keeps
        tick_def)
qed

lemma loop_returns: "time s \<noteq> 1799 \<Longrightarrow> \<exists>s'. loop heroType rnd s = Inr s'"
  by (simp add: loop_def openExtraction_def afterGameEnd_def gameEnd_keeps entityUpdate_keeps
        afterCombat_def Let_def combat_keeps afterReading_def readingLogic_keeps
        playerMotion_keeps afterInput_def playerInput_keeps spawnRogue_keeps spawnMob_keeps
        tick_def)

text \<open>
  C10. Over a frame that starts with the game not over, the kinds of the registry's
  entities grow exactly by the spawns: one slime or bat when the frame's tick count is a
  multiple of 200 and the registry held fewer than 50 entities, and one rogue agent when
  the tick count is a multiple of 1200 and fewer than 5 non-dead rogue agents existed;
  nothing else adds a rogue agent or revives one. So in every reachable state at most
  5 non-dead rogue agents exist.
\<close>

theorem spawn_caps:
  "(loop heroType rnd s = Inr s' \<and> \<not> gameOver s \<longrightarrow>
      time s' = Suc (time s) \<and>
      map type (entities s') = map type (entities s) @
        (if time s' mod 200 = 0 \<and> length (entities s) < 50
         then [type (newMob rnd (player s))] else []) @
        (if time s' mod 1200 = 0 \<and> rogueCount (entities s) < 5 then [ROGUE_AGENT] else []) \<and>
      rogueCount (entities s') \<le> rogueCount (entities s) +
        (if time s' mod 1200 = 0 \<and> rogueCount (entities s) < 5 then 1 else 0)) \<and>
   (type (newMob rnd p) = MOB_SLIME \<or> type (newMob rnd p) = MOB_BAT) \<and>
   (reachable heroType t \<longrightarrow> rogueCount (entities t) \<le> 5)"
  using frame_time [of heroType rnd s s'] frame_types [of heroType rnd s s']
    frame_rogueCount [of heroType rnd s s'] newMob_type [of rnd p]
    reachable_rogueCount [of heroType t]
  by blast

lemma spawnChests_no_draws: "spawnChests ps [] = []"
  by (cases ps) simp_all

definition rogueEve :: GameState where
  "rogueEve = (initState [])\<lparr>time := 1199\<rparr>"

definition crowded :: GameState where
  "crowded =
     (initState [])\<lparr>time := 1199,
        entities := replicate 5 (newRogue initPlayer) @
                    replicate 45 (newChest (addRect (- 200) 0 400 40 DIRT))\<rparr>"

theorem spawn_caps_witness:
  "\<not> gameOver rogueEve \<and> entities rogueEve = [] \<and>
   (case loop SWORDSMAN rndZero rogueEve of
      Inr s' \<Rightarrow> map type (entities s') = [MOB_SLIME, ROGUE_AGENT] \<and> rogueCount (entities s') \<le> 1
    | Inl err \<Rightarrow> False) \<and>
   \<not> gameOver crowded \<and> length (entities crowded) = 50 \<and> rogueCount (entities crowded) = 5 \<and>
   (case loop SWORDSMAN rndZero crowded of
      Inr s' \<Rightarrow> map type (entities s') = map type (entities crowded) \<and>
                 rogueCount (entities s') \<le> 5
    | Inl err \<Rightarrow> False) \<and>
   reachable SWORDSMAN (initState []) \<and> rogueCount (entities (initState [])) \<le> 5"
proof -
  obtain s1 where l1: "loop SWORDSMAN rndZero rogueEve = Inr s1"
    using loop_returns [of rogueEve SWORDSMAN rndZero] by (auto simp: rogueEve_def initState_def)
  obtain s2 where l2: "loop SWORDSMAN rndZero crowded = Inr s2"
    using loop_returns [of crowded SWORDSMAN rndZero] by (auto simp: crowded_def initState_def)
  have n: "\<not> gameOver rogueEve" "\<not> gameOver crowded" "entities rogueEve = []"
    "length (entities crowded) = 50" "time rogueEve = 1199" "time crowded = 1199"
    by (simp_all add: rogueEve_def crowded_def initState_def spawnChests_no_draws)
  have c: "rogueCount (entities crowded) = 5" "rogueCount (entities rogueEve) = 0"
    by (simp_all add: rogueCount_def crowded_def rogueEve_def initState_def newRogue_def newChest_def
        spawnChests_no_draws)
  have r: "reachable SWORDSMAN (initState [])" by (rule reachable.start)
  have m: "type (newMob rndZero (player rogueEve)) = MOB_SLIME"
    by (simp add: newMob_def rndZero_def)
  show ?thesis
    using spawn_caps [of SWORDSMAN rndZero rogueEve s1 initPlayer "initState []"]
      spawn_caps [of SWORDSMAN rndZero crowded s2 initPlayer "initState []"] l1 l2 n c r m
    by auto
qed

section \<open>Double jump\<close>

text \<open>
  A jump fires in a frame when the input section runs (the loot menu is closed), a jump
  key is down, the key was not down at the previous sampling (\<open>isJumpKeyHeld\<close> is
  false) and fewer than 2 jumps are consumed. The player has landed in a frame when the
  collision pass of that frame took the support-snap branch (the local \<open>onGround\<close>).
\<close>

definition jumpFires :: "GameState \<Rightarrow> bool" where
  "jumpFires s =
     (\<not> isLootMenuOpen s \<and> isJumpPressed (keys s) \<and> \<not> isJumpKeyHeld (player s) \<and>
      jumpCount (player s) < 2)"

definition landed :: "Rnd \<Rightarrow> GameState \<Rightarrow> bool" where
  "landed rnd s =
     snd (collisionResolution (platforms s) (playerPhysics (player (afterInput rnd s))))"

lemma movePlayer_keeps:
  "vy (fst (movePlayer k p)) = vy p \<and> jumpCount (fst (movePlayer k p)) = jumpCount p \<and>
   isJumpKeyHeld (fst (movePlayer k p)) = isJumpKeyHeld p"
  by (simp add: movePlayer_def Let_def)

lemma usePotion_player:
  "vy (player (usePotion s)) = vy (player s) \<and>
   jumpCount (player (usePotion s)) = jumpCount (player s) \<and>
   isJumpKeyHeld (player (usePotion s)) = isJumpKeyHeld (player s)"
  by (simp add: usePotion_def Let_def)

lemma jumpPlayer_effect:
  "vy (fst (jumpPlayer k (p, d))) =
     (if isJumpPressed k \<and> \<not> isJumpKeyHeld p \<and> jumpCount p < 2 then JUMP_FORCE else vy p) \<and>
   jumpCount (fst (jumpPlayer k (p, d))) =
     (if isJumpPressed k \<and> \<not> isJumpKeyHeld p \<and> jumpCount p < 2 then jumpCount p + 1
      else jumpCount p) \<and>
   isJumpKeyHeld (fst (jumpPlayer k (p, d))) = isJumpPressed k"
  by (simp add: jumpPlayer_def Let_def)

lemma playerInput_jump:
  "vy (player (playerInput s)) = (if jumpFires s then JUMP_FORCE else vy (player s)) \<and>
   jumpCount (player (playerInput s)) =
     (if jumpFires s then jumpCount (player s) + 1 else jumpCount (player s)) \<and>
   isJumpKeyHeld (player (playerInput s)) =
     (if isLootMenuOpen s then isJumpKeyHeld (player s) else isJumpPressed (keys s))"
proof (cases "isLootMenuOpen s")
  case True
  then show ?thesis by (simp add: playerInput_def jumpFires_def)
next
  case False
  obtain p1 d1 where m: "movePlayer (keys s) (player s) = (p1, d1)"
    by (cases "movePlayer (keys s) (player s)")
  have p1: "vy p1 = vy (player s) \<and> jumpCount p1 = jumpCount (player s) \<and>
      isJumpKeyHeld p1 = isJumpKeyHeld (player s)"
    using movePlayer_keeps [of "keys s" "player s"] by (simp add: m)
  show ?thesis
    using False p1
    by (simp add: playerInput_def Let_def m searchInteraction_keeps usePotion_player
        jumpPlayer_effect jumpFires_def)
qed

lemma afterInput_jump:
  "vy (player (afterInput rnd s)) = (if jumpFires s then JUMP_FORCE else vy (player s)) \<and>
   jumpCount (player (afterInput rnd s)) =
     (if jumpFires s then jumpCount (player s) + 1 else jumpCount (player s)) \<and>
   isJumpKeyHeld (player (afterInput rnd s)) =
     (if isLootMenuOpen s then isJumpKeyHeld (player s) else isJumpPressed (keys s))"
proof -
  let ?s0 = "spawnRogue (spawnMob rnd (tick s))"
  have "jumpFires ?s0 = jumpFires s"
    by (simp add: jumpFires_def spawnRogue_keeps spawnMob_keeps tick_keeps)
  then show ?thesis
    using playerInput_jump [of ?s0]
    by (simp add: afterInput_def spawnRogue_keeps spawnMob_keeps tick_keeps)
qed

lemma lastSupportPlayer_some: "lastSupportPlayer ps p (Some a) \<noteq> None"
  by (induction ps arbitrary: p a) auto

lemma collidePlayer_jumpCount:
  "jumpCount (fst (collidePlayer a (p, g))) = (if supportsPlayer p a then 0 else jumpCount p)"
  by (simp add: collidePlayer_def supportsPlayer_def Let_def)

lemma player_pass_jumpCount:
  "jumpCount (fst (fold collidePlayer ps (p, g))) =
     (if lastSupportPlayer ps p None \<noteq> None then 0 else jumpCount p)"
proof (induction ps arbitrary: p g)
  case Nil
  then show ?case by simp
next
  case (Cons a ps)
  obtain p1 g1 where step: "collidePlayer a (p, g) = (p1, g1)" by (cases "collidePlayer a (p, g)")
  have p1: "p1 = fst (collidePlayer a (p, False))"
    using step collidePlayer_fst [of a p g] by simp
  have j: "jumpCount p1 = (if supportsPlayer p a then 0 else jumpCount p)"
    using step collidePlayer_jumpCount [of a p g] by simp
  show ?case
    using Cons.IH [of p1 g1] j
    by (auto simp: step p1 [symmetric] lastSupportPlayer_some)
qed

lemma collisionResolution_jumpCount:
  "jumpCount (fst (collisionResolution ps p)) =
     (if snd (collisionResolution ps p) then 0 else jumpCount p)"
  by (simp add: collisionResolution_def player_pass_jumpCount player_pass_ground)

text \<open>
  C5. In a frame that starts with the game not over, the input section sets the vertical
  velocity to the jump impulse and adds one to the jump counter exactly when a jump
  fires, that is only with the key down now, not down at the previous sampling, and
  fewer than 2 jumps consumed; after the frame the held flag is the state of the jump
  key (unchanged while the loot menu is open), so a second jump needs a frame with the
  key up in between. With 2 jumps consumed no jump fires. The counter after the frame is
  0 exactly when the collision pass took the support-snap branch, and otherwise what the
  input section left; it never exceeds 2.
\<close>

theorem jump_edge_triggered:
  assumes "loop heroType rnd s = Inr s'" and "\<not> gameOver s"
  shows "vy (player (afterInput rnd s)) = (if jumpFires s then JUMP_FORCE else vy (player s)) \<and>
         jumpCount (player (afterInput rnd s)) =
           (if jumpFires s then jumpCount (player s) + 1 else jumpCount (player s)) \<and>
         jumpCount (player s') =
           (if landed rnd s then 0
            else if jumpFires s then jumpCount (player s) + 1
            else jumpCount (player s)) \<and>
         isJumpKeyHeld (player s') =
           (if isLootMenuOpen s then isJumpKeyHeld (player s) else isJumpPressed (keys s)) \<and>
         (jumpCount (player s) \<le> 2 \<longrightarrow> jumpCount (player s') \<le> 2) \<and>
         (jumpCount (player s) \<ge> 2 \<or> isJumpKeyHeld (player s) \<longrightarrow> \<not> jumpFires s)"
proof -
  note late = late_frame_player [OF assms]
  have jc: "jumpCount (player s') =
           (if landed rnd s then 0 else jumpCount (player (afterInput rnd s)))"
    using late
    by (simp add: afterReading_player collisionResolution_jumpCount landed_def playerPhysics_def
        Let_def)
  have held: "isJumpKeyHeld (player s') = isJumpKeyHeld (player (afterInput rnd s))"
    using late
    by (simp add: afterReading_player collisionResolution_def collidePlayer_pass_keeps
        playerPhysics_def Let_def)
  show ?thesis
    using jc held afterInput_jump [of rnd s] by (auto simp: jumpFires_def)
qed


definition jumper :: "real \<Rightarrow> nat \<Rightarrow> bool \<Rightarrow> bool \<Rightarrow> GameState" where
  "jumper py n held pressed =
     (initState [])\<lparr>time := 100,
        player := initPlayer\<lparr>x := 0, y := py, jumpCount := n, isJumpKeyHeld := held\<rparr>,
        keys := (\<lambda>k. pressed \<and> k = ''Space'')\<rparr>"

theorem jump_edge_triggered_witness:
  "\<not> gameOver (jumper (- 48) 0 False True) \<and>
   (case loop SWORDSMAN rndZero (jumper (- 48) 0 False True) of
      Inr s' \<Rightarrow> jumpCount (player s') = 1 \<and> isJumpKeyHeld (player s')
    | Inl err \<Rightarrow> False) \<and>
   vy (player (afterInput rndZero (jumper (- 48) 0 False True))) = JUMP_FORCE \<and>
   (case loop SWORDSMAN rndZero (jumper (- 300) 1 True True) of
      Inr s' \<Rightarrow> jumpCount (player s') = 1 \<and> isJumpKeyHeld (player s')
    | Inl err \<Rightarrow> False) \<and>
   vy (player (afterInput rndZero (jumper (- 300) 1 True True))) = 0 \<and>
   (case loop SWORDSMAN rndZero (jumper (- 300) 2 False True) of
      Inr s' \<Rightarrow> jumpCount (player s') = 2 \<and> isJumpKeyHeld (player s')
    | Inl err \<Rightarrow> False) \<and>
   vy (player (afterInput rndZero (jumper (- 300) 2 False True))) = 0 \<and>
   (case loop SWORDSMAN rndZero (jumper (- 48) 2 True False) of
      Inr s' \<Rightarrow> jumpCount (player s') = 0 \<and> \<not> isJumpKeyHeld (player s')
    | Inl err \<Rightarrow> False)"
proof -
  let ?a = "jumper (- 48) 0 False True" and ?b = "jumper (- 300) 1 True True"
  let ?c = "jumper (- 300) 2 False True" and ?d = "jumper (- 48) 2 True False"
  obtain sa where la: "loop SWORDSMAN rndZero ?a = Inr sa"
    using loop_returns [of ?a SWORDSMAN rndZero] by (auto simp: jumper_def initState_def)
  obtain sb where lb: "loop SWORDSMAN rndZero ?b = Inr sb"
    using loop_returns [of ?b SWORDSMAN rndZero] by (auto simp: jumper_def initState_def)
  obtain sc where lc: "loop SWORDSMAN rndZero ?c = Inr sc"
    using loop_returns [of ?c SWORDSMAN rndZero] by (auto simp: jumper_def initState_def)
  obtain sd where ld: "loop SWORDSMAN rndZero ?d = Inr sd"
    using loop_returns [of ?d SWORDSMAN rndZero] by (auto simp: jumper_def initState_def)
  have n: "\<not> gameOver (jumper py k held pressed)" for py k held pressed
    by (simp add: jumper_def initState_def)
  have f: "jumpFires ?a" "\<not> jumpFires ?b" "\<not> jumpFires ?c" "\<not> jumpFires ?d"
    by (simp_all add: jumpFires_def jumper_def initState_def initPlayer_def isJumpPressed_def)
  have g: "\<not> landed rndZero ?a" "\<not> landed rndZero ?b" "\<not> landed rndZero ?c"
    "landed rndZero ?d"
    by (simp_all add: landed_def frame_defs entity_defs jumper_def initState_def initPlayer_def
        generateMap_list addRect_def rndZero_def)
  have v: "vy (player ?b) = 0" "vy (player ?c) = 0" "jumpCount (player ?a) = 0"
    "jumpCount (player ?b) = 1" "jumpCount (player ?c) = 2" "jumpCount (player ?d) = 2"
    "\<not> isLootMenuOpen ?a" "\<not> isLootMenuOpen ?b" "\<not> isLootMenuOpen ?c" "\<not> isLootMenuOpen ?d"
    "isJumpPressed (keys ?a)" "isJumpPressed (keys ?b)" "isJumpPressed (keys ?c)"
    "\<not> isJumpPressed (keys ?d)"
    by (simp_all add: jumper_def initState_def initPlayer_def isJumpPressed_def)
  show ?thesis
    using jump_edge_triggered [OF la n] jump_edge_triggered [OF lb n]
      jump_edge_triggered [OF lc n] jump_edge_triggered [OF ld n] la lb lc ld n f g v
    by simp
qed

section \<open>Search dwell\<close>

text \<open>
  The movement flag of the input section (the local \<open>didMove\<close>): a left or right key
  is down, or a jump fires.
\<close>

definition didMove :: "GameState \<Rightarrow> bool" where
  "didMove s = snd (jumpPlayer (keys s) (movePlayer (keys s) (player s)))"






















section \<open>Resting on a platform: the claim\<close>

lemma updateEntity_bottom:
  "\<not> isDead e \<Longrightarrow> type e \<noteq> CHEST \<Longrightarrow>
   y (snd (updateEntity plats (q, e))) = y (fst (fold collideEntity plats (entityPhysics e, False))) \<and>
   height (snd (updateEntity plats (q, e))) =
     height (fst (fold collideEntity plats (entityPhysics e, False)))"
  by (simp add: updateEntity_def Let_def entityFinish_keeps entityAI_keeps entityTimers_keeps)

lemma player_rests_after_frame:
  assumes "loop heroType rnd s = Inr s'" and "\<not> gameOver s"
    and "lastSupportPlayer (platforms s) (playerPhysics (player (afterInput rnd s))) None = Some plat"
  shows "vy (player s') = 0 \<and> y (player s') + height (player s') = y plat"
  using late_frame_player [OF assms(1,2)] assms(3)
    support_snap_pass [of "platforms s" "playerPhysics (player (afterInput rnd s))" plat]
  by (simp add: afterReading_player)

text \<open>
  C7. After the integration and collision-resolution pass of a frame, an entity for which
  the support-snap branch applied has vertical velocity exactly 0 and its bottom edge
  \<open>y + height\<close> exactly at the top edge of the last non-LAVA platform of the list
  whose support-snap branch applied (the last correction in platform order wins), for
  the player's pass and for the pass of the entity loop alike; the flags \<open>onGround\<close>
  and \<open>entityOnGround\<close> are set exactly when such a platform exists. For the player
  both facts still hold when the frame ends; for an entity of the registry the bottom
  edge is still on that platform when its update ends (the AI that follows the pass in
  the same update acts on the velocity only).
\<close>

theorem support_snap_rests:
  "(lastSupportPlayer plats p None = Some plat \<longrightarrow>
      vy (fst (collisionResolution plats p)) = 0 \<and>
      y (fst (collisionResolution plats p)) + height (fst (collisionResolution plats p)) = y plat \<and>
      ptype plat \<noteq> LAVA \<and> plat \<in> set plats) \<and>
   snd (collisionResolution plats p) = (lastSupportPlayer plats p None \<noteq> None) \<and>
   (lastSupportEntity plats e None = Some plat \<longrightarrow>
      vy (fst (fold collideEntity plats (e, False))) = 0 \<and>
      y (fst (fold collideEntity plats (e, False))) +
        height (fst (fold collideEntity plats (e, False))) = y plat \<and>
      ptype plat \<noteq> LAVA \<and> plat \<in> set plats) \<and>
   snd (fold collideEntity plats (e, False)) = (lastSupportEntity plats e None \<noteq> None) \<and>
   (loop heroType rnd s = Inr s' \<and> \<not> gameOver s \<and>
    lastSupportPlayer (platforms s) (playerPhysics (player (afterInput rnd s))) None = Some plat \<longrightarrow>
      vy (player s') = 0 \<and> y (player s') + height (player s') = y plat) \<and>
   (\<not> isDead e \<and> type e \<noteq> CHEST \<and>
    lastSupportEntity plats (entityPhysics e) None = Some plat \<longrightarrow>
      y (snd (updateEntity plats (q, e))) + height (snd (updateEntity plats (q, e))) = y plat)"
proof (intro conjI impI)
  assume h: "lastSupportPlayer plats p None = Some plat"
  show "vy (fst (collisionResolution plats p)) = 0"
    using h support_snap_pass [of plats p plat e] by simp
  show "y (fst (collisionResolution plats p)) + height (fst (collisionResolution plats p)) = y plat"
    using h support_snap_pass [of plats p plat e] by simp
  show "ptype plat \<noteq> LAVA" using h support_snap_pass [of plats p plat e] by simp
  show "plat \<in> set plats" using h support_snap_pass [of plats p plat e] by simp
next
  show "snd (collisionResolution plats p) = (lastSupportPlayer plats p None \<noteq> None)"
    using support_snap_pass [of plats p plat e] by simp
next
  assume h: "lastSupportEntity plats e None = Some plat"
  show "vy (fst (fold collideEntity plats (e, False))) = 0"
    using h support_snap_pass [of plats p plat e] by simp
  show "y (fst (fold collideEntity plats (e, False))) +
        height (fst (fold collideEntity plats (e, False))) = y plat"
    using h support_snap_pass [of plats p plat e] by simp
  show "ptype plat \<noteq> LAVA" using h support_snap_pass [of plats p plat e] by simp
  show "plat \<in> set plats" using h support_snap_pass [of plats p plat e] by simp
next
  show "snd (fold collideEntity plats (e, False)) = (lastSupportEntity plats e None \<noteq> None)"
    using support_snap_pass [of plats p plat e] by simp
next
  assume h: "loop heroType rnd s = Inr s' \<and> \<not> gameOver s \<and>
    lastSupportPlayer (platforms s) (playerPhysics (player (afterInput rnd s))) None = Some plat"
  show "vy (player s') = 0" using h player_rests_after_frame [of heroType rnd s s' plat] by simp
  show "y (player s') + height (player s') = y plat"
    using h player_rests_after_frame [of heroType rnd s s' plat] by simp
next
  assume h: "\<not> isDead e \<and> type e \<noteq> CHEST \<and>
    lastSupportEntity plats (entityPhysics e) None = Some plat"
  then show "y (snd (updateEntity plats (q, e))) + height (snd (updateEntity plats (q, e))) = y plat"
    using updateEntity_bottom [of e plats q] support_snap_pass [of plats p plat "entityPhysics e"]
    by simp
qed

definition ledgeA :: Platform where "ledgeA = addRect 0 100 200 20 STONE"
definition ledgeB :: Platform where "ledgeB = addRect 0 90 200 20 DIRT"

definition faller :: Entity where
  "faller = initPlayer\<lparr>x := 50, y := 60, vy := 4, jumpCount := 2\<rparr>"

definition fallingSlime :: Entity where
  "fallingSlime = (newMob rndZero initPlayer)\<lparr>x := 50, y := 76, vy := 4\<rparr>"

definition startPlatform :: Platform where
  "startPlatform = addRect (- 200) 0 400 40 DIRT"

definition lander :: GameState where
  "lander = (initState [])\<lparr>time := 100, player := initPlayer\<lparr>x := 0, y := - 50, vy := 3\<rparr>\<rparr>"

theorem support_snap_rests_witness:
  "lastSupportPlayer [ledgeA, ledgeB] faller None = Some ledgeB \<and>
   vy (fst (collisionResolution [ledgeA, ledgeB] faller)) = 0 \<and>
   y (fst (collisionResolution [ledgeA, ledgeB] faller)) = 42 \<and>
   height (fst (collisionResolution [ledgeA, ledgeB] faller)) = 48 \<and> y ledgeB = 90 \<and>
   snd (collisionResolution [ledgeA, ledgeB] faller) \<and>
   lastSupportEntity [ledgeA, ledgeB] fallingSlime None = Some ledgeA \<and>
   vy (fst (fold collideEntity [ledgeA, ledgeB] (fallingSlime, False))) = 0 \<and>
   y (fst (fold collideEntity [ledgeA, ledgeB] (fallingSlime, False))) = 68 \<and>
   height (fst (fold collideEntity [ledgeA, ledgeB] (fallingSlime, False))) = 32 \<and>
   y ledgeA = 100 \<and>
   snd (fold collideEntity [ledgeA, ledgeB] (fallingSlime, False)) \<and>
   \<not> gameOver lander \<and> startPlatform \<in> set (platforms lander) \<and> y startPlatform = 0 \<and>
   (case loop SWORDSMAN rndZero lander of
      Inr s' \<Rightarrow> vy (player s') = 0 \<and> y (player s') + height (player s') = 0
    | Inl err \<Rightarrow> False) \<and>
   \<not> isDead fallingSlime \<and> type fallingSlime = MOB_SLIME \<and>
   lastSupportEntity [ledgeA, ledgeB] (entityPhysics fallingSlime) None = Some ledgeA \<and>
   y (snd (updateEntity [ledgeA, ledgeB] (initPlayer, fallingSlime))) +
     height (snd (updateEntity [ledgeA, ledgeB] (initPlayer, fallingSlime))) = 100"
proof -
  obtain sl where l: "loop SWORDSMAN rndZero lander = Inr sl"
    using loop_returns [of lander SWORDSMAN rndZero] by (auto simp: lander_def initState_def)
  have n: "\<not> gameOver lander" "platforms lander = generateMap"
    by (simp_all add: lander_def initState_def)
  have sp: "startPlatform \<in> set generateMap" "y startPlatform = 0"
    by (simp_all add: generateMap_list startPlatform_def addRect_def)
  have ls: "lastSupportPlayer generateMap (playerPhysics (player (afterInput rndZero lander))) None =
      Some startPlatform"
    by (simp add: frame_defs entity_defs lander_def initState_def initPlayer_def
        generateMap_list addRect_def rndZero_def startPlatform_def supportsPlayer_def)
  have le: "lastSupportEntity [ledgeA, ledgeB] (entityPhysics fallingSlime) None = Some ledgeA"
    by (simp add: ledgeA_def ledgeB_def fallingSlime_def initPlayer_def newMob_def rndZero_def
      addRect_def supportsEntity_def rectIntersect_def collideEntity_def entityPhysics_def
      GRAVITY_def FRICTION_def Let_def)
  have fs: "\<not> isDead fallingSlime" "type fallingSlime = MOB_SLIME"
    by (simp_all add: fallingSlime_def newMob_def rndZero_def)
  have a: "lastSupportPlayer [ledgeA, ledgeB] faller None = Some ledgeB"
    "lastSupportEntity [ledgeA, ledgeB] fallingSlime None = Some ledgeA"
    "y ledgeA = 100" "y ledgeB = 90" "height faller = 48" "height fallingSlime = 32"
    by (simp_all add: ledgeA_def ledgeB_def faller_def fallingSlime_def initPlayer_def newMob_def
      rndZero_def addRect_def supportsPlayer_def supportsEntity_def rectIntersect_def
      collidePlayer_def collideEntity_def Let_def)
  have hp: "height (fst (collisionResolution [ledgeA, ledgeB] faller)) = 48"
    using a(5) by (simp add: collisionResolution_def collidePlayer_keeps)
  have he: "height (fst (fold collideEntity [ledgeA, ledgeB] (fallingSlime, False))) = 32"
    using a(6) by (simp add: collideEntity_keeps)
  show ?thesis
    using support_snap_rests [where plats = "[ledgeA, ledgeB]" and p = faller and plat = ledgeB]
      support_snap_rests [where plats = "[ledgeA, ledgeB]" and e = fallingSlime and plat = ledgeA
        and q = initPlayer]
      support_snap_rests [where heroType = SWORDSMAN and rnd = rndZero and s = lander
        and s' = sl and plat = startPlatform]
      l n sp ls le fs a hp he
    by simp
qed

section \<open>A frame on the generated map returns\<close>

text \<open>
  The only failure of a frame is the portal's platform draw at frame 1800. On the
  generated map, which every reachable state has, 19 platforms are eligible and a draw
  in \<open>[0, 1)\<close> indexes one of them, so the frame returns a state.
\<close>

lemma validPlats_generateMap:
  "length (filter (\<lambda>plat. ptype plat \<noteq> LAVA \<and> ptype plat \<noteq> WOOD) generateMap) = 19"
  by (simp add: generateMap_list addRect_def)

lemma openExtraction_returns:
  assumes "platforms s = generateMap" and "0 \<le> extractPick rnd" and "extractPick rnd < 1"
  shows "\<exists>s'. openExtraction rnd s = Inr s'"
proof -
  let ?i = "\<lfloor>extractPick rnd * real 19\<rfloor>"
  have lo: "0 \<le> ?i" using assms(2) by simp
  have "extractPick rnd * real 19 < 19" using assms(3) by simp
  then have hi: "?i < 19" by (simp add: floor_less_iff)
  then have "nat ?i < 19" using lo by linarith
  then show ?thesis
    using lo by (simp add: openExtraction_def Let_def assms(1) validPlats_generateMap)
qed

lemma loop_returns_on_map:
  assumes "platforms s = generateMap" and "0 \<le> extractPick rnd" and "extractPick rnd < 1"
  shows "\<exists>s'. loop heroType rnd s = Inr s'"
proof (cases "gameOver s")
  case True
  then show ?thesis by (simp add: loop_def)
next
  case False
  have "platforms (afterGameEnd heroType rnd s) = generateMap"
    using assms(1) by (simp add: afterGameEnd_keeps)
  from openExtraction_returns [OF this assms(2,3)]
  obtain s1 where "openExtraction rnd (afterGameEnd heroType rnd s) = Inr s1" by blast
  then show ?thesis using False by (simp add: loop_def)
qed

lemma reachable_platforms: "reachable heroType s \<Longrightarrow> platforms s = generateMap"
proof (induction rule: reachable.induct)
  case (start rs)
  then show ?case by (simp add: initState_def)
next
  case (frame s rnd s')
  show ?case
  proof (cases "gameOver s")
    case True
    then show ?thesis using frame by (simp add: loop_def)
  next
    case False
    from loop_frame [OF frame(2) False]
    obtain s1 where o: "openExtraction rnd (afterGameEnd heroType rnd s) = Inr s1"
      and s': "s' = extractionDwell s1" by blast
    show ?thesis
      using openExtraction_keeps [OF o] frame(3)
      by (simp add: s' extractionDwell_keeps afterGameEnd_keeps)
  qed
next
  case (keyDown s code)
  then show ?case by (simp add: handleKeyDown_def)
next
  case (keyUp s code)
  then show ?case by (simp add: handleKeyUp_def)
next
  case (pickup s)
  then show ?case by (auto simp: handlePickup_def Let_def split: option.splits)
next
  case (discard s)
  then show ?case by (simp add: handleDiscard_def)
qed

end
